theory Spec2Isabelle
  imports Main "HOL-Library.AList" "HOL-Library.Char_ord" "HOL-Library.List_Lexorder"
    "HOL-Library.Multiset"
begin

section \<open>The image store of image/image.go\<close>

text \<open>
  The Go package keeps its images behind pointers: a \<^verbatim>\<open>History\<close> is a slice of
  \<^verbatim>\<open>*Image\<close>, and the two maps of the \<^verbatim>\<open>Index\<close> hold pointers as well, so that
  \<^verbatim>\<open>Rename\<close> can change the \<^verbatim>\<open>Id\<close> of an image in place. The model therefore has
  an explicit store of images: an address is a position in the list \<open>heap\<close>, allocation
  appends to it, and an assignment through a pointer is a list update. Pointers are never
  nil in the model (the callers of this repository pass the result of \<^verbatim>\<open>NewImage\<close> or a
  checked \<^verbatim>\<open>Find\<close>).
\<close>

subsection \<open>Errors\<close>

text \<open>
  \<^verbatim>\<open>errors.New(msg)\<close> is \<open>ErrMsg msg\<close>. The errors of the operating system and of
  encoding/json are opaque constructors. A Go run-time panic (index out of range) is a value
  too, so that the branch is visible in the model.
\<close>

datatype error =
    ErrMsg string
  | ReadFileError
  | UnmarshalError
  | WriteFileError
  | RenameFileError
  | ComputeIdError
  | PanicIndexOutOfRange
  | PanicSliceBounds

subsection \<open>Images\<close>

text \<open>\<^verbatim>\<open>Created\<close> is a \<^verbatim>\<open>time.Time\<close>; the model keeps the instant as an integer.\<close>

record Image =
  Id :: string
  Layers :: "string list"
  Created :: int
  Parent :: string

type_synonym addr = nat

text \<open>A \<^verbatim>\<open>History\<close> is a slice of image pointers.\<close>

type_synonym History = "addr list"

subsection \<open>The index file and the file system\<close>

text \<open>
  What \<^verbatim>\<open>json.Marshal(index)\<close> writes: the two maps, images by value (the \<^verbatim>\<open>Path\<close>
  field is written too, and \<^verbatim>\<open>load\<close> puts the path of the index back after decoding).
\<close>

record document =
  doc_ByName :: "(string \<times> Image list) list"
  doc_ById :: "(string \<times> Image) list"

text \<open>
  A path of the file system holds no file, a file that cannot be read (\<^verbatim>\<open>ioutil.ReadFile\<close>
  fails with an error other than "does not exist"), a file that is not valid JSON
  (truncated, garbage: \<^verbatim>\<open>json.Unmarshal\<close> rejects it before it touches its target), or
  a document as \<^verbatim>\<open>save\<close> writes it. A file that is JSON of another shape (null entries,
  values of the wrong type) is not modelled.
\<close>

datatype disk_file = Missing | Unreadable | Invalid | Doc document

text \<open>
  The calls that change the file system. The package only ever issues \<open>WriteFile\<close>;
  \<open>RenameFile\<close> is \<^verbatim>\<open>os.Rename\<close>, which a write-then-rename protocol would need.
\<close>

datatype fs_call =
    WriteFile string document nat
  | RenameFile string string

subsection \<open>The state\<close>

text \<open>
  The store of images, the fields of the one \<^verbatim>\<open>Index\<close> object, and the file system.
  Go maps are association lists read with \<open>map_of\<close> and written with \<open>AList.update\<close> and
  \<open>AList.delete\<close>. \<open>wfail\<close> says that \<^verbatim>\<open>ioutil.WriteFile\<close> fails. \<^verbatim>\<open>WriteFile\<close>
  truncates the file before it writes, so a write that fails either leaves the file as it
  was (it could not be opened) or leaves it cut short; \<open>wtrunc\<close> says which. \<open>fslog\<close> is
  the list of the calls issued so far that change the file system, the latest last.
\<close>

record world =
  heap :: "Image list"
  Path :: string
  ByName :: "(string \<times> History) list"
  ById :: "(string \<times> addr) list"
  fs :: "string \<Rightarrow> disk_file"
  wfail :: bool
  wtrunc :: bool
  fslog :: "fs_call list"

text \<open>
  \<^verbatim>\<open>NewIndex(path)\<close>: two empty maps. No call has been issued yet; a failing write of the
  states built here leaves the file as it was.
\<close>

definition NewIndex :: "string \<Rightarrow> Image list \<Rightarrow> (string \<Rightarrow> disk_file) \<Rightarrow> bool \<Rightarrow> world" where
  "NewIndex path hp disk failing =
     \<lparr>heap = hp, Path = path, ByName = [], ById = [], fs = disk, wfail = failing,
      wtrunc = False, fslog = []\<rparr>"

subsection \<open>Image ids\<close>

text \<open>
  \<^verbatim>\<open>path.Base\<close> of the Go library: the last element of a path, after the trailing slashes
  are removed; \<^verbatim>\<open>"."\<close> for the empty path and \<^verbatim>\<open>"/"\<close> for a path of slashes only.
\<close>

definition path_Base :: "string \<Rightarrow> string" where
  "path_Base p =
     (if p = [] then ''.''
      else let s = rev (dropWhile (\<lambda>c. c = CHR ''/'') (rev p));
               b = rev (takeWhile (\<lambda>c. c \<noteq> CHR ''/'') (rev s))
           in if b = [] then ''/'' else b)"

text \<open>
  \<^verbatim>\<open>generateImageId\<close>. \<^verbatim>\<open>future.ComputeId\<close> is not part of the package: it is the
  parameter \<open>cid\<close>, from the bytes read to a digest or an error.
\<close>

definition generateImageId :: "(string \<Rightarrow> error + string) \<Rightarrow> string \<Rightarrow> string list \<Rightarrow> error + string" where
  "generateImageId cid name layers =
     (if length layers = 0 then Inl (ErrMsg ''No layers provided.'')
      else if length layers = 1 then Inr (name @ '':'' @ path_Base (layers ! 0))
      else (case cid (concat (map path_Base layers)) of
              Inl e \<Rightarrow> Inl e
            | Inr h \<Rightarrow> Inr (name @ '':'' @ h)))"

text \<open>
  \<^verbatim>\<open>NewImage\<close> allocates the image; \<open>now\<close> is what \<^verbatim>\<open>time.Now()\<close> returns. The result
  is the address of the new image.
\<close>

definition NewImage :: "(string \<Rightarrow> error + string) \<Rightarrow> int \<Rightarrow> string \<Rightarrow> string list \<Rightarrow> string \<Rightarrow> world
    \<Rightarrow> error + (addr \<times> world)" where
  "NewImage cid now name layers parent w =
     (case generateImageId cid name layers of
        Inl e \<Rightarrow> Inl e
      | Inr iid \<Rightarrow>
          Inr (length (heap w),
               w\<lparr>heap := heap w @ [\<lparr>Id = iid, Layers = layers, Created = now, Parent = parent\<rparr>]\<rparr>))"

subsection \<open>History\<close>

text \<open>
  \<^verbatim>\<open>Less(i, j)\<close> is \<^verbatim>\<open>images[j].Created.Before(images[i].Created)\<close>: the image at \<open>i\<close>
  goes before the image at \<open>j\<close> when it is the more recent one.
\<close>

definition Less_img :: "Image list \<Rightarrow> addr \<Rightarrow> addr \<Rightarrow> bool" where
  "Less_img hp a b = (Created (hp ! b) < Created (hp ! a))"

definition History_Less :: "Image list \<Rightarrow> History \<Rightarrow> nat \<Rightarrow> nat \<Rightarrow> bool" where
  "History_Less hp h i j = Less_img hp (h ! i) (h ! j)"

definition History_Len :: "History \<Rightarrow> nat" where
  "History_Len h = length h"

text \<open>
  \<^verbatim>\<open>sort.Sort\<close> belongs to the Go library. It is modelled by the insertion sort that the
  library runs on short slices: each element in turn moves towards the front while
  \<^verbatim>\<open>Less\<close> puts it before its left neighbour. The library promises no order among
  elements that \<^verbatim>\<open>Less\<close> does not separate, and the theorems below claim none.
\<close>

fun insert_img :: "Image list \<Rightarrow> addr \<Rightarrow> History \<Rightarrow> History" where
  "insert_img hp x [] = [x]"
| "insert_img hp x (y # ys) =
     (if Less_img hp x y then x # y # ys else y # insert_img hp x ys)"

definition sort_Sort :: "Image list \<Rightarrow> History \<Rightarrow> History" where
  "sort_Sort hp h = foldl (\<lambda>acc x. insert_img hp x acc) [] h"

text \<open>\<^verbatim>\<open>History.Add\<close>: append, then sort.\<close>

definition History_Add :: "Image list \<Rightarrow> addr \<Rightarrow> History \<Rightarrow> History" where
  "History_Add hp im h = sort_Sort hp (h @ [im])"

subsection \<open>Loading and saving the index\<close>

text \<open>
  \<^verbatim>\<open>json.Unmarshal\<close> decodes into the maps that are there: a key of the document replaces
  the entry of the map, a key of the map that the document does not have stays. Every
  decoded image is a new object.
\<close>

fun decode_ByName :: "(string \<times> Image list) list \<Rightarrow> world \<Rightarrow> world" where
  "decode_ByName [] w = w"
| "decode_ByName ((name, imgs) # rest) w =
     decode_ByName rest
       (w\<lparr>heap := heap w @ imgs,
          ByName := AList.update name [length (heap w) ..< length (heap w) + length imgs] (ByName w)\<rparr>)"

fun decode_ById :: "(string \<times> Image) list \<Rightarrow> world \<Rightarrow> world" where
  "decode_ById [] w = w"
| "decode_ById ((iid, img) # rest) w =
     decode_ById rest
       (w\<lparr>heap := heap w @ [img], ById := AList.update iid (length (heap w)) (ById w)\<rparr>)"

text \<open>\<^verbatim>\<open>Index.load\<close>: a file that does not exist is no error, and nothing is read.\<close>

definition load :: "world \<Rightarrow> error option \<times> world" where
  "load w =
     (case fs w (Path w) of
        Missing \<Rightarrow> (None, w)
      | Unreadable \<Rightarrow> (Some ReadFileError, w)
      | Invalid \<Rightarrow> (Some UnmarshalError, w)
      | Doc d \<Rightarrow> (None, decode_ById (doc_ById d) (decode_ByName (doc_ByName d) w)))"

text \<open>\<^verbatim>\<open>json.Marshal(index)\<close>: the images are written by value.\<close>

definition Marshal :: "world \<Rightarrow> document" where
  "Marshal w =
     \<lparr>doc_ByName = map (\<lambda>(name, h). (name, map (\<lambda>p. heap w ! p) h)) (ByName w),
      doc_ById = map (\<lambda>(iid, p). (iid, heap w ! p)) (ById w)\<rparr>"

text \<open>
  The effect of one call on the file system; every call is entered in the log.
  \<^verbatim>\<open>ioutil.WriteFile\<close> writes the file at the path it is given; when it fails after the
  truncation, what is left at the path is not a document.
\<close>

fun fs_exec :: "fs_call \<Rightarrow> world \<Rightarrow> error option \<times> world" where
  "fs_exec (WriteFile p d perm) w =
     (if wfail w
      then (Some WriteFileError,
            w\<lparr>fs := (if wtrunc w then (fs w)(p := Invalid) else fs w),
              fslog := fslog w @ [WriteFile p d perm]\<rparr>)
      else (None, w\<lparr>fs := (fs w)(p := Doc d), fslog := fslog w @ [WriteFile p d perm]\<rparr>))"
| "fs_exec (RenameFile a b) w =
     (if fs w a = Missing
      then (Some RenameFileError, w\<lparr>fslog := fslog w @ [RenameFile a b]\<rparr>)
      else (None, w\<lparr>fs := (fs w)(b := fs w a, a := Missing),
                    fslog := fslog w @ [RenameFile a b]\<rparr>))"

fun fs_run :: "fs_call list \<Rightarrow> world \<Rightarrow> error option \<times> world" where
  "fs_run [] w = (None, w)"
| "fs_run (c # cs) w =
     (case fs_exec c w of
        (Some e, w') \<Rightarrow> (Some e, w')
      | (None, w') \<Rightarrow> fs_run cs w')"

text \<open>
  \<^verbatim>\<open>Index.save\<close> makes one call: \<^verbatim>\<open>ioutil.WriteFile(index.Path, jsonData, 0600)\<close>.
  (\<^verbatim>\<open>json.Marshal\<close> can fail on the types of the index only for a creation time outside
  the years 0 to 9999; that branch is left out.)
\<close>

definition save_calls :: "world \<Rightarrow> fs_call list" where
  "save_calls w = [WriteFile (Path w) (Marshal w) 384]"

definition save :: "world \<Rightarrow> error option \<times> world" where
  "save w = fs_run (save_calls w) w"

subsection \<open>The operations of the index\<close>

definition Exists :: "string \<Rightarrow> world \<Rightarrow> bool" where
  "Exists iid w = (map_of (ById w) iid \<noteq> None)"

text \<open>\<^verbatim>\<open>Index.Find\<close>: nil when the load fails; by id first, then by name.\<close>

definition Find :: "string \<Rightarrow> world \<Rightarrow> addr option \<times> world" where
  "Find idOrName w =
     (case load w of
        (Some e, w1) \<Rightarrow> (None, w1)
      | (None, w1) \<Rightarrow>
          (case map_of (ById w1) idOrName of
             Some im \<Rightarrow> (Some im, w1)
           | None \<Rightarrow>
               (case map_of (ByName w1) idOrName of
                  Some (im # rest) \<Rightarrow> (Some im, w1)
                | Some [] \<Rightarrow> (None, w1)
                | None \<Rightarrow> (None, w1))))"

text \<open>
  \<^verbatim>\<open>Index.Add\<close>. The comparison with the latest version reads element 0 of the history,
  which panics on an empty history.
\<close>

definition Index_Add :: "string \<Rightarrow> addr \<Rightarrow> world \<Rightarrow> error option \<times> world" where
  "Index_Add name im w =
     (case load w of
        (Some e, w1) \<Rightarrow> (Some e, w1)
      | (None, w1) \<Rightarrow>
          (case map_of (ByName w1) name of
             Some [] \<Rightarrow> (Some PanicIndexOutOfRange, w1)
           | Some (latest # rest) \<Rightarrow>
               if Id (heap w1 ! latest) = Id (heap w1 ! im) then (None, w1)
               else save (w1\<lparr>ByName := AList.update name (History_Add (heap w1) im (latest # rest)) (ByName w1),
                              ById := AList.update (Id (heap w1 ! im)) im (ById w1)\<rparr>)
           | None \<Rightarrow>
               save (w1\<lparr>ByName := AList.update name (History_Add (heap w1) im []) (ByName w1),
                         ById := AList.update (Id (heap w1 ! im)) im (ById w1)\<rparr>)))"

text \<open>\<^verbatim>\<open>Index.Copy\<close>: the only operation that looks at empty names.\<close>

definition Copy :: "(string \<Rightarrow> error + string) \<Rightarrow> int \<Rightarrow> string \<Rightarrow> string \<Rightarrow> world
    \<Rightarrow> (error + addr) \<times> world" where
  "Copy cid now srcNameOrId dstName w =
     (if srcNameOrId = [] \<or> dstName = [] then (Inl (ErrMsg ''Illegal image name''), w)
      else
        (case load w of
           (Some e, w1) \<Rightarrow> (Inl e, w1)
         | (None, w1) \<Rightarrow>
             (case Find srcNameOrId w1 of
                (None, w2) \<Rightarrow> (Inl (ErrMsg (''No such image: '' @ srcNameOrId)), w2)
              | (Some src, w2) \<Rightarrow>
                  (case NewImage cid now dstName (Layers (heap w2 ! src)) (Id (heap w2 ! src)) w2 of
                     Inl e \<Rightarrow> (Inl e, w2)
                   | Inr (dst, w3) \<Rightarrow>
                       (case Index_Add dstName dst w3 of
                          (Some e, w4) \<Rightarrow> (Inl e, w4)
                        | (None, w4) \<Rightarrow>
                            (case save w4 of
                               (Some e, w5) \<Rightarrow> (Inl e, w5)
                             | (None, w5) \<Rightarrow> (Inr dst, w5)))))))"

text \<open>
  The loop of \<^verbatim>\<open>Index.Rename\<close> over the images of the moved history: the new id is
  written into the image, the image is filed under the new id, and the entry of the id
  that the image had is deleted. An error of \<^verbatim>\<open>generateImageId\<close> leaves the loop at once.
\<close>

fun rename_loop :: "(string \<Rightarrow> error + string) \<Rightarrow> string \<Rightarrow> History \<Rightarrow> world \<Rightarrow> error option \<times> world" where
  "rename_loop cid newName [] w = (None, w)"
| "rename_loop cid newName (im # rest) w =
     (case generateImageId cid newName (Layers (heap w ! im)) of
        Inl e \<Rightarrow> (Some e, w)
      | Inr iid \<Rightarrow>
          (let oldId = Id (heap w ! im) in
           rename_loop cid newName rest
             (w\<lparr>heap := (heap w)[im := (heap w ! im)\<lparr>Id := iid\<rparr>],
                ById := AList.delete oldId (AList.update iid im (ById w))\<rparr>)))"

definition Rename :: "(string \<Rightarrow> error + string) \<Rightarrow> string \<Rightarrow> string \<Rightarrow> world \<Rightarrow> error option \<times> world" where
  "Rename cid oldName newName w =
     (case load w of
        (Some e, w1) \<Rightarrow> (Some e, w1)
      | (None, w1) \<Rightarrow>
          (case map_of (ByName w1) oldName of
             None \<Rightarrow> (Some (ErrMsg (''Can't rename '' @ oldName @ '': no such image.'')), w1)
           | Some h \<Rightarrow>
               if map_of (ByName w1) newName \<noteq> None
               then (Some (ErrMsg (''Can't rename to '' @ newName @ '': name is already in use.'')), w1)
               else
                 (case rename_loop cid newName h
                         (w1\<lparr>ByName := AList.delete oldName (AList.update newName h (ByName w1))\<rparr>) of
                    (Some e, w2) \<Rightarrow> (Some e, w2)
                  | (None, w2) \<Rightarrow> save w2)))"

text \<open>\<^verbatim>\<open>Index.Delete\<close>: all images of the name leave both maps.\<close>

definition Delete :: "string \<Rightarrow> world \<Rightarrow> error option \<times> world" where
  "Delete name w =
     (case load w of
        (Some e, w1) \<Rightarrow> (Some e, w1)
      | (None, w1) \<Rightarrow>
          (case map_of (ByName w1) name of
             None \<Rightarrow> (Some (ErrMsg (''No such image: '' @ name)), w1)
           | Some h \<Rightarrow>
               save (w1\<lparr>ById := foldl (\<lambda>m im. AList.delete (Id (heap w1 ! im)) m) (ById w1) h,
                         ByName := AList.delete name (ByName w1)\<rparr>)))"

text \<open>
  \<^verbatim>\<open>Index.DeleteMatch\<close>. \<^verbatim>\<open>regexp.MatchString\<close> belongs to the Go library: it is the
  parameter \<open>matchString\<close>, from the pattern and the name to the answer or an error. The
  loop visits the names that the load left, in the order of the association list (Go fixes
  no order for the entries of a map), and an error of the match leaves it at once.
\<close>

fun DeleteMatch_loop :: "(string \<Rightarrow> string \<Rightarrow> error + bool) \<Rightarrow> string \<Rightarrow> (string \<times> History) list
    \<Rightarrow> world \<Rightarrow> error option \<times> world" where
  "DeleteMatch_loop matchString pattern [] w = (None, w)"
| "DeleteMatch_loop matchString pattern ((name, history) # rest) w =
     (case matchString pattern name of
        Inl e \<Rightarrow> (Some e, w)
      | Inr matched \<Rightarrow>
          if matched
          then DeleteMatch_loop matchString pattern rest
                 (w\<lparr>ById := foldl (\<lambda>m im. AList.delete (Id (heap w ! im)) m) (ById w) history,
                    ByName := AList.delete name (ByName w)\<rparr>)
          else DeleteMatch_loop matchString pattern rest w)"

definition DeleteMatch :: "(string \<Rightarrow> string \<Rightarrow> error + bool) \<Rightarrow> string \<Rightarrow> world
    \<Rightarrow> error option \<times> world" where
  "DeleteMatch matchString pattern w =
     (case load w of
        (Some e, w1) \<Rightarrow> (Some e, w1)
      | (None, w1) \<Rightarrow>
          (case DeleteMatch_loop matchString pattern (ByName w1) w1 of
             (Some e, w2) \<Rightarrow> (Some e, w2)
           | (None, w2) \<Rightarrow> save w2))"

text \<open>\<^verbatim>\<open>Index.Names\<close>: the empty list when the load fails, else the names in order.\<close>

definition Names :: "world \<Rightarrow> string list \<times> world" where
  "Names w =
     (case load w of
        (Some e, w1) \<Rightarrow> ([], w1)
      | (None, w1) \<Rightarrow> (sort (map fst (ByName w1)), w1))"

subsection \<open>The store\<close>

definition Create :: "(string \<Rightarrow> error + string) \<Rightarrow> int \<Rightarrow> string \<Rightarrow> string \<Rightarrow> string list \<Rightarrow> world
    \<Rightarrow> (error + addr) \<times> world" where
  "Create cid now name source layers w =
     (case NewImage cid now name layers source w of
        Inl e \<Rightarrow> (Inl e, w)
      | Inr (im, w1) \<Rightarrow>
          (case Index_Add name im w1 of
             (Some e, w2) \<Rightarrow> (Inl e, w2)
           | (None, w2) \<Rightarrow> (Inr im, w2)))"

text \<open>
  \<^verbatim>\<open>Store.Import\<close>. The layer store is not part of the sources at hand: \<open>addLayer\<close> is
  what \<^verbatim>\<open>store.Layers.AddLayer\<close> answers for an archive, the new layer or an error.
\<close>

definition Import :: "('a \<Rightarrow> error + string) \<Rightarrow> (string \<Rightarrow> error + string) \<Rightarrow> int \<Rightarrow> string \<Rightarrow> 'a
    \<Rightarrow> addr option \<Rightarrow> world \<Rightarrow> (error + addr) \<times> world" where
  "Import addLayer cid now name archive parent w =
     (case addLayer archive of
        Inl e \<Rightarrow> (Inl e, w)
      | Inr layer \<Rightarrow>
          (let layers = [layer] @ (case parent of None \<Rightarrow> [] | Some q \<Rightarrow> Layers (heap w ! q));
               parentId = (case parent of None \<Rightarrow> [] | Some q \<Rightarrow> Id (heap w ! q))
           in Create cid now name parentId layers w))"

section \<open>Creating a container (the server)\<close>

text \<open>
  The container runtime (package docker) is not part of the sources at hand. Its three
  operations that \<^verbatim>\<open>Server.CreateContainer\<close> calls are the fields of \<open>Containers\<close>, over a
  runtime state \<open>'r\<close> and container handles \<open>'c\<close>; an error of the runtime is its message.
\<close>

record Config =
  Hostname :: string
  Ports :: "int list"
  User :: string
  Tty :: bool
  OpenStdin :: bool

record ('r, 'c) Containers =
  rt_Create :: "string \<Rightarrow> string \<Rightarrow> string list \<Rightarrow> string list \<Rightarrow> Config \<Rightarrow> 'r \<Rightarrow> (string + 'c) \<times> 'r"
  rt_SetUserData :: "'c \<Rightarrow> string \<Rightarrow> string \<Rightarrow> 'r \<Rightarrow> string option \<times> 'r"
  rt_Destroy :: "'c \<Rightarrow> 'r \<Rightarrow> string option \<times> 'r"

text \<open>
  \<^verbatim>\<open>Server.CreateContainer\<close>. \<open>rid\<close> is what \<^verbatim>\<open>future.RandomId()\<close> returns; slicing it to
  eight bytes panics when it is shorter. The result of \<^verbatim>\<open>Destroy\<close> is dropped, as in the
  source.
\<close>

definition CreateContainer :: "('r, 'c) Containers \<Rightarrow> string \<Rightarrow> Image \<Rightarrow> int list \<Rightarrow> string \<Rightarrow> bool \<Rightarrow> bool
    \<Rightarrow> string \<Rightarrow> string \<Rightarrow> string list \<Rightarrow> 'r \<Rightarrow> (error + 'c) \<times> 'r" where
  "CreateContainer containers rid img ports user tty openStdin comment cmd args r =
     (if length rid < 8 then (Inl PanicSliceBounds, r)
      else
        (let cid8 = take 8 rid in
         case rt_Create containers cid8 cmd args (Layers img)
                \<lparr>Hostname = cid8, Ports = ports, User = user, Tty = tty, OpenStdin = openStdin\<rparr> r of
           (Inl e, r1) \<Rightarrow> (Inl (ErrMsg e), r1)
         | (Inr container, r1) \<Rightarrow>
             (case rt_SetUserData containers container ''image'' (Id img) r1 of
                (Some e, r2) \<Rightarrow>
                  (Inl (ErrMsg (''Error setting container userdata: '' @ e)),
                   snd (rt_Destroy containers container r2))
              | (None, r2) \<Rightarrow>
                  (case rt_SetUserData containers container ''comment'' comment r2 of
                     (Some e, r3) \<Rightarrow>
                       (Inl (ErrMsg (''Error setting container userdata: '' @ e)),
                        snd (rt_Destroy containers container r3))
                   | (None, r3) \<Rightarrow> (Inr container, r3)))))"


section \<open>Notions used in the statements\<close>

text \<open>A history is newest first when no image is older than one that comes after it.\<close>

definition newest_first :: "Image list \<Rightarrow> History \<Rightarrow> bool" where
  "newest_first hp h = sorted_wrt (\<lambda>a b. Created (hp ! b) \<le> Created (hp ! a)) h"

text \<open>
  The protocol that the specification asks of a save, in its words: the document is first
  written to a temporary file, which is then renamed over the index path.
\<close>

definition write_then_rename :: "string \<Rightarrow> fs_call list \<Rightarrow> bool" where
  "write_then_rename path calls =
     (case calls of
        [WriteFile tmp d perm, RenameFile a b] \<Rightarrow> tmp \<noteq> path \<and> a = tmp \<and> b = path
      | _ \<Rightarrow> False)"

section \<open>Example states\<close>

text \<open>A new index on a disk without an index file.\<close>

definition w_new :: world where
  "w_new = NewIndex ''index.json'' [] (\<lambda>_. Missing) False"

text \<open>Three images of one name, created at 10, 30 and 20.\<close>

definition hp3 :: "Image list" where
  "hp3 = [\<lparr>Id = ''a:x'', Layers = [''/l/x''], Created = 10, Parent = []\<rparr>,
          \<lparr>Id = ''a:y'', Layers = [''/l/y''], Created = 30, Parent = []\<rparr>,
          \<lparr>Id = ''a:z'', Layers = [''/l/z''], Created = 20, Parent = []\<rparr>]"

text \<open>An index that holds the three images in memory, over an index file that is not JSON.\<close>

definition w_stale :: world where
  "w_stale = \<lparr>heap = hp3, Path = ''index.json'', ByName = [(''a'', [1, 2, 0])],
              ById = [(''a:x'', 0), (''a:y'', 1), (''a:z'', 2)],
              fs = (\<lambda>_. Invalid), wfail = False, wtrunc = False, fslog = []\<rparr>"

text \<open>A new index over an index file that is not JSON.\<close>

definition w_garbage :: world where
  "w_garbage = NewIndex ''index.json'' [] (\<lambda>_. Invalid) False"

text \<open>A new index over a store that already holds the three images; no index file.\<close>

definition w_heap3 :: world where
  "w_heap3 = NewIndex ''index.json'' hp3 (\<lambda>_. Missing) False"

text \<open>The three images filed under one name in memory; no index file.\<close>

definition w_mem3 :: world where
  "w_mem3 = \<lparr>heap = hp3, Path = ''index.json'', ByName = [(''a'', [1, 2, 0])],
              ById = [(''a:x'', 0), (''a:y'', 1), (''a:z'', 2)],
              fs = (\<lambda>_. Missing), wfail = False, wtrunc = False, fslog = []\<rparr>"

text \<open>What \<open>w_mem3\<close> becomes when the name is deleted.\<close>

definition w_deleted :: world where
  "w_deleted = \<lparr>heap = hp3, Path = ''index.json'', ByName = [], ById = [],
              fs = (\<lambda>_. Missing)(''index.json'' := Doc \<lparr>doc_ByName = [], doc_ById = []\<rparr>),
              wfail = False, wtrunc = False,
              fslog = [WriteFile ''index.json'' \<lparr>doc_ByName = [], doc_ById = []\<rparr> 384]\<rparr>"

text \<open>
  A runtime that keeps the ids of its containers in a list, and whose metadata store fails
  on the key \<open>comment\<close>.
\<close>

definition toy_runtime :: "(string list, string) Containers" where
  "toy_runtime =
     \<lparr>rt_Create = (\<lambda>cid8 cmd args layers config r. (Inr cid8, cid8 # r)),
      rt_SetUserData = (\<lambda>c key val r. if key = ''comment'' then (Some ''disk full'', r) else (None, r)),
      rt_Destroy = (\<lambda>c r. (None, removeAll c r))\<rparr>"

definition img_base :: Image where
  "img_base = \<lparr>Id = ''base:aa'', Layers = [''/l/aa''], Created = 3, Parent = []\<rparr>"

text \<open>One image, created at 20, filed under the name \<open>a\<close>; no index file.\<close>

definition w_one :: world where
  "w_one = \<lparr>heap = hp3, Path = ''index.json'', ByName = [(''a'', [2])],
            ById = [(''a:z'', 2)], fs = (\<lambda>_. Missing), wfail = False, wtrunc = False, fslog = []\<rparr>"

text \<open>The three images filed under one name, on a disk that rejects every write.\<close>

definition w_readonly :: world where
  "w_readonly = w_mem3\<lparr>wfail := True\<rparr>"

text \<open>One image filed under the empty name; no index file.\<close>

definition w_anon :: world where
  "w_anon = \<lparr>heap = [\<lparr>Id = '':x'', Layers = [''/l/x''], Created = 10, Parent = []\<rparr>],
             Path = ''index.json'', ByName = [([], [0])], ById = [('':x'', 0)],
             fs = (\<lambda>_. Missing), wfail = False, wtrunc = False, fslog = []\<rparr>"

text \<open>A pattern matcher that matches every name.\<close>

definition match_all :: "string \<Rightarrow> string \<Rightarrow> error + bool" where
  "match_all pattern name = Inr True"


section \<open>Properties\<close>

subsection \<open>Image ids\<close>

text \<open>
  C1. \<^verbatim>\<open>NewImage\<close> fails on an empty list of layers. On one layer it builds the image with
  id \<open>name:digest\<close>, the digest being the base name of that layer; on two layers or more,
  when \<^verbatim>\<open>ComputeId\<close> returns \<open>h\<close> on the concatenation of the layers' digests, it builds
  the image with id \<open>name:h\<close>. These are the only ways it returns an image.
\<close>

theorem NewImage_id:
  "NewImage cid now name [] parent w = Inl (ErrMsg ''No layers provided.'')
   \<and> NewImage cid now name [l] parent w =
       Inr (length (heap w),
            w\<lparr>heap := heap w @ [\<lparr>Id = name @ '':'' @ path_Base l, Layers = [l],
                                  Created = now, Parent = parent\<rparr>]\<rparr>)
   \<and> (2 \<le> length layers \<and> cid (concat (map path_Base layers)) = Inr h \<longrightarrow>
        NewImage cid now name layers parent w =
          Inr (length (heap w),
               w\<lparr>heap := heap w @ [\<lparr>Id = name @ '':'' @ h, Layers = layers,
                                     Created = now, Parent = parent\<rparr>]\<rparr>))
   \<and> (\<forall>p w'. NewImage cid now name layers parent w = Inr (p, w') \<longrightarrow>
        layers \<noteq> [] \<and> p = length (heap w) \<and> length (heap w') = Suc p \<and>
        Layers (heap w' ! p) = layers \<and>
        (\<exists>hash. Id (heap w' ! p) = name @ '':'' @ hash \<and>
           (if length layers = 1 then hash = path_Base (layers ! 0)
            else cid (concat (map path_Base layers)) = Inr hash)))"
  by (auto simp: NewImage_def generateImageId_def split: sum.splits if_splits)

theorem NewImage_id_witness:
  "(2 \<le> length [''/l/aa'', ''/l/bb''] \<and>
    (\<lambda>s. Inr s) (concat (map path_Base [''/l/aa'', ''/l/bb''])) = (Inr ''aabb'' :: error + string))
   \<and> NewImage (\<lambda>s. Inr s) 7 ''base'' [''/l/aa'', ''/l/bb''] ''p:1'' w_new
      = Inr (0, w_new\<lparr>heap := [\<lparr>Id = ''base:aabb'', Layers = [''/l/aa'', ''/l/bb''],
                                 Created = 7, Parent = ''p:1''\<rparr>]\<rparr>)
   \<and> NewImage (\<lambda>s. Inr s) 7 ''base'' [''/l/aa''] ''p:1'' w_new
      = Inr (0, w_new\<lparr>heap := [\<lparr>Id = ''base:aa'', Layers = [''/l/aa''],
                                 Created = 7, Parent = ''p:1''\<rparr>]\<rparr>)"
  using NewImage_id [of "\<lambda>s. Inr s" 7 "''base''" "''p:1''" w_new "''/l/aa''"
      "[''/l/aa'', ''/l/bb'']" "''aabb''"]
  by (simp add: path_Base_def NewIndex_def w_new_def)

subsection \<open>The order of a history\<close>

lemma mset_insert_img: "mset (insert_img hp x ys) = add_mset x (mset ys)"
  by (induction ys) auto

lemma set_insert_img: "set (insert_img hp x ys) = insert x (set ys)"
  by (induction ys) auto

lemma newest_first_insert_img:
  "newest_first hp ys \<Longrightarrow> newest_first hp (insert_img hp x ys)"
  by (induction ys) (auto simp: newest_first_def set_insert_img Less_img_def)

lemma foldl_insert_img:
  "newest_first hp acc \<Longrightarrow>
   newest_first hp (foldl (\<lambda>acc x. insert_img hp x acc) acc h) \<and>
   mset (foldl (\<lambda>acc x. insert_img hp x acc) acc h) = mset acc + mset h"
  by (induction h arbitrary: acc) (auto simp: newest_first_insert_img mset_insert_img)

lemma sort_Sort_newest_first: "newest_first hp (sort_Sort hp h)"
  using foldl_insert_img [of hp "[]" h] by (simp add: sort_Sort_def newest_first_def)

lemma sort_Sort_mset: "mset (sort_Sort hp h) = mset h"
  using foldl_insert_img [of hp "[]" h] by (simp add: sort_Sort_def newest_first_def)

lemma newest_first_nth:
  "newest_first hp h \<Longrightarrow> Suc k < length h \<Longrightarrow> Created (hp ! (h ! Suc k)) \<le> Created (hp ! (h ! k))"
  by (simp add: newest_first_def sorted_wrt_iff_nth_less)

text \<open>
  C4. After \<^verbatim>\<open>History.Add(image)\<close> the history holds the images it held and the new one,
  and it is sorted by creation time, newest first: the image at \<open>k\<close> is not older than the
  image at \<open>k + 1\<close>, for every \<open>k\<close> with \<open>k + 1\<close> inside the history.
\<close>

theorem History_Add_sorted:
  "mset (History_Add hp im h) = add_mset im (mset h) \<and>
   (\<forall>k. Suc k < length (History_Add hp im h) \<longrightarrow>
      Created (hp ! (History_Add hp im h ! k)) \<ge> Created (hp ! (History_Add hp im h ! Suc k)))"
  using sort_Sort_newest_first [of hp "h @ [im]"] sort_Sort_mset [of hp "h @ [im]"]
  by (simp add: History_Add_def newest_first_nth)

theorem History_Add_sorted_witness:
  "Suc 0 < length (History_Add hp3 2 [1, 0]) \<and> History_Add hp3 2 [1, 0] = [1, 2, 0] \<and>
   Created (hp3 ! (History_Add hp3 2 [1, 0] ! 0)) \<ge> Created (hp3 ! (History_Add hp3 2 [1, 0] ! Suc 0))"
proof -
  have e: "History_Add hp3 2 [1, 0] = [1, 2, 0]"
    by (simp add: History_Add_def sort_Sort_def Less_img_def hp3_def)
  then have h: "Suc 0 < length (History_Add hp3 2 [1, 0])" by simp
  from History_Add_sorted [of hp3 2 "[1, 0]"] h e show ?thesis by blast
qed

subsection \<open>Loading\<close>

text \<open>
  C10. When the index file is there but cannot be loaded (it cannot be read, or it is not
  JSON), \<^verbatim>\<open>Find\<close> returns no image and \<^verbatim>\<open>Names\<close> returns the empty list, whatever the
  index holds in memory; neither reports an error, and the state is left as it was.
\<close>

theorem Find_Names_load_failure:
  "fs w (Path w) = Unreadable \<or> fs w (Path w) = Invalid \<Longrightarrow>
   Find idOrName w = (None, w) \<and> Names w = ([], w)"
  by (auto simp: Find_def Names_def load_def)

theorem Find_Names_load_failure_witness:
  "(fs w_stale (Path w_stale) = Unreadable \<or> fs w_stale (Path w_stale) = Invalid) \<and>
   map_of (ByName w_stale) ''a'' = Some [1, 2, 0] \<and>
   Find ''a'' w_stale = (None, w_stale) \<and> Names w_stale = ([], w_stale)"
proof -
  have h: "fs w_stale (Path w_stale) = Unreadable \<or> fs w_stale (Path w_stale) = Invalid"
    by (simp add: w_stale_def)
  from Find_Names_load_failure [OF h, of "''a''"] h show ?thesis
    by (simp add: w_stale_def)
qed

text \<open>
  C7, as the claim states it, fails: on an index file that is not JSON, \<^verbatim>\<open>load\<close> returns
  the error of the decoder.
\<close>

theorem load_invalid_counterexample:
  "fs w_garbage (Path w_garbage) = Invalid \<and> load w_garbage = (Some UnmarshalError, w_garbage)"
  by (simp add: load_def NewIndex_def w_garbage_def)

text \<open>
  C7, amended. Loading succeeds when the index file is missing, and leaves the index in
  memory as it is: empty for a new index, on which \<^verbatim>\<open>Find\<close> then returns no image and
  \<^verbatim>\<open>Names\<close> the empty list. When the file is there but cannot be read or is not JSON,
  loading fails with that error and leaves the index as it is, and \<^verbatim>\<open>Add\<close>, \<^verbatim>\<open>Rename\<close>
  and \<^verbatim>\<open>Delete\<close> return the error without any change.
\<close>

theorem load_missing_or_invalid:
  "(fs w (Path w) = Missing \<longrightarrow> load w = (None, w)) \<and>
   (fs w (Path w) = Unreadable \<longrightarrow> load w = (Some ReadFileError, w)) \<and>
   (fs w (Path w) = Invalid \<longrightarrow> load w = (Some UnmarshalError, w)) \<and>
   (disk path = Missing \<longrightarrow>
      load (NewIndex path hp disk failing) = (None, NewIndex path hp disk failing) \<and>
      ByName (NewIndex path hp disk failing) = [] \<and> ById (NewIndex path hp disk failing) = [] \<and>
      Find idOrName (NewIndex path hp disk failing) = (None, NewIndex path hp disk failing) \<and>
      Names (NewIndex path hp disk failing) = ([], NewIndex path hp disk failing)) \<and>
   (fs w (Path w) = Unreadable \<or> fs w (Path w) = Invalid \<longrightarrow>
      Index_Add name im w = (fst (load w), w) \<and> fst (load w) \<noteq> None \<and>
      Rename cid oldName newName w = (fst (load w), w) \<and>
      Delete name w = (fst (load w), w))"
  by (auto simp: load_def NewIndex_def Find_def Names_def Index_Add_def Rename_def Delete_def)

theorem load_missing_or_invalid_witness:
  "fs w_new (Path w_new) = Missing \<and> load w_new = (None, w_new) \<and>
   (fs w_stale (Path w_stale) = Unreadable \<or> fs w_stale (Path w_stale) = Invalid) \<and>
   Delete ''a'' w_stale = (Some UnmarshalError, w_stale)"
proof -
  have m: "fs w_new (Path w_new) = Missing" by (simp add: w_new_def NewIndex_def)
  have i: "fs w_stale (Path w_stale) = Unreadable \<or> fs w_stale (Path w_stale) = Invalid"
    by (simp add: w_stale_def)
  have l: "load w_stale = (Some UnmarshalError, w_stale)" by (simp add: load_def w_stale_def)
  from load_missing_or_invalid [of w_new] m have a: "load w_new = (None, w_new)" by blast
  from load_missing_or_invalid [of w_stale _ _ _ _ _ "''a''"] i
  have "Delete ''a'' w_stale = (fst (load w_stale), w_stale)" by blast
  with l a m i show ?thesis by simp
qed

subsection \<open>Saving\<close>

lemma decode_ByName_frame:
  "fs (decode_ByName d w) = fs w \<and> Path (decode_ByName d w) = Path w \<and>
   wfail (decode_ByName d w) = wfail w \<and> ById (decode_ByName d w) = ById w \<and>
   wtrunc (decode_ByName d w) = wtrunc w \<and> fslog (decode_ByName d w) = fslog w"
  by (induction d w rule: decode_ByName.induct) auto

lemma decode_ById_frame:
  "fs (decode_ById d w) = fs w \<and> Path (decode_ById d w) = Path w \<and>
   wfail (decode_ById d w) = wfail w \<and> ByName (decode_ById d w) = ByName w \<and>
   wtrunc (decode_ById d w) = wtrunc w \<and> fslog (decode_ById d w) = fslog w"
  by (induction d w rule: decode_ById.induct) auto

lemma load_frame:
  "load w = (e, w1) \<Longrightarrow> fs w1 = fs w \<and> Path w1 = Path w \<and> wfail w1 = wfail w"
  by (auto simp: load_def decode_ByName_frame decode_ById_frame split: disk_file.splits)

lemma load_log: "load w = (e, w1) \<Longrightarrow> fslog w1 = fslog w \<and> wtrunc w1 = wtrunc w"
  by (auto simp: load_def decode_ByName_frame decode_ById_frame split: disk_file.splits)

lemma Marshal_fs [simp]: "Marshal (w\<lparr>fs := f\<rparr>) = Marshal w"
  by (simp add: Marshal_def)

lemma Marshal_fslog [simp]: "Marshal (w\<lparr>fslog := l\<rparr>) = Marshal w"
  by (simp add: Marshal_def)

lemma save_eq:
  "save w =
     (if wfail w
      then (Some WriteFileError,
            w\<lparr>fs := (if wtrunc w then (fs w)(Path w := Invalid) else fs w),
              fslog := fslog w @ [WriteFile (Path w) (Marshal w) 384]\<rparr>)
      else (None, w\<lparr>fs := (fs w)(Path w := Doc (Marshal w)),
                    fslog := fslog w @ [WriteFile (Path w) (Marshal w) 384]\<rparr>))"
  by (simp add: save_def save_calls_def)

lemma save_persists: "save w = (None, w') \<Longrightarrow> fs w' (Path w') = Doc (Marshal w')"
  by (auto simp: save_eq split: if_splits)

subsection \<open>Creating a container\<close>

text \<open>
  C9. When the runtime has created the container and the assignment of the user metadata
  \<open>image\<close>, or after it of \<open>comment\<close>, fails, \<^verbatim>\<open>CreateContainer\<close> calls \<^verbatim>\<open>Destroy\<close>
  on the container and then returns the error: the state of the runtime is the one that
  \<^verbatim>\<open>Destroy\<close> leaves. So the container is not retained, for every notion \<open>retained\<close> of
  a runtime holding a container that \<^verbatim>\<open>Destroy\<close> puts an end to.
\<close>

theorem CreateContainer_rollback:
  assumes "8 \<le> length rid"
    and "rt_Create containers (take 8 rid) cmd args (Layers img)
           \<lparr>Hostname = take 8 rid, Ports = ports, User = user, Tty = tty, OpenStdin = openStdin\<rparr> r
         = (Inr container, r1)"
    and "rt_SetUserData containers container ''image'' (Id img) r1 = (Some e, r2) \<or>
         (\<exists>r'. rt_SetUserData containers container ''image'' (Id img) r1 = (None, r') \<and>
               rt_SetUserData containers container ''comment'' comment r' = (Some e, r2))"
  shows "CreateContainer containers rid img ports user tty openStdin comment cmd args r
           = (Inl (ErrMsg (''Error setting container userdata: '' @ e)),
              snd (rt_Destroy containers container r2))
         \<and> ((\<forall>s. \<not> retained (snd (rt_Destroy containers container s)) container) \<longrightarrow>
              \<not> retained (snd (CreateContainer containers rid img ports user tty openStdin
                                 comment cmd args r)) container)"
  using assms by (auto simp: CreateContainer_def Let_def)

theorem CreateContainer_rollback_witness:
  "CreateContainer toy_runtime ''0123456789abcdef'' img_base [80] ''root'' False False ''note''
       ''/bin/sh'' [] []
     = (Inl (ErrMsg ''Error setting container userdata: disk full''), []) \<and>
   ''01234567'' \<notin> set (snd (CreateContainer toy_runtime ''0123456789abcdef'' img_base [80]
       ''root'' False False ''note'' ''/bin/sh'' [] []))"
proof -
  have a: "8 \<le> length ''0123456789abcdef''" by simp
  have b: "rt_Create toy_runtime (take 8 ''0123456789abcdef'') ''/bin/sh'' [] (Layers img_base)
           \<lparr>Hostname = take 8 ''0123456789abcdef'', Ports = [80], User = ''root'', Tty = False,
            OpenStdin = False\<rparr> []
         = (Inr ''01234567'', [''01234567''])"
    by (simp add: toy_runtime_def)
  have c: "rt_SetUserData toy_runtime ''01234567'' ''image'' (Id img_base) [''01234567'']
             = (Some ''disk full'', [''01234567'']) \<or>
         (\<exists>r'. rt_SetUserData toy_runtime ''01234567'' ''image'' (Id img_base) [''01234567'']
                 = (None, r') \<and>
               rt_SetUserData toy_runtime ''01234567'' ''comment'' ''note'' r'
                 = (Some ''disk full'', [''01234567'']))"
    by (simp add: toy_runtime_def)
  have d: "\<forall>s. \<not> (\<lambda>s c. c \<in> set s) (snd (rt_Destroy toy_runtime ''01234567'' s)) ''01234567''"
    by (simp add: toy_runtime_def)
  from CreateContainer_rollback [OF a b c, of "\<lambda>s c. c \<in> set s"] d show ?thesis
    by (simp add: toy_runtime_def)
qed

subsection \<open>Importing\<close>

lemma decode_ByName_heap: "\<exists>ys. heap (decode_ByName d w) = heap w @ ys"
proof (induction d arbitrary: w)
  case Nil
  then show ?case by simp
next
  case (Cons a d)
  obtain name imgs where a: "a = (name, imgs)" by (cases a)
  from Cons [of "w\<lparr>heap := heap w @ imgs,
          ByName := AList.update name [length (heap w) ..< length (heap w) + length imgs] (ByName w)\<rparr>"]
  show ?case by (auto simp: a)
qed

lemma decode_ById_heap: "\<exists>ys. heap (decode_ById d w) = heap w @ ys"
proof (induction d arbitrary: w)
  case Nil
  then show ?case by simp
next
  case (Cons a d)
  obtain iid img where a: "a = (iid, img)" by (cases a)
  from Cons [of "w\<lparr>heap := heap w @ [img], ById := AList.update iid (length (heap w)) (ById w)\<rparr>"]
  show ?case by (auto simp: a)
qed

lemma load_heap: "load w = (e, w') \<Longrightarrow> \<exists>ys. heap w' = heap w @ ys"
proof -
  assume l: "load w = (e, w')"
  show ?thesis
  proof (cases "fs w (Path w)")
    case (Doc d)
    obtain ys where ys: "heap (decode_ByName (doc_ByName d) w) = heap w @ ys"
      using decode_ByName_heap by blast
    obtain zs where zs: "heap (decode_ById (doc_ById d) (decode_ByName (doc_ByName d) w))
        = heap (decode_ByName (doc_ByName d) w) @ zs"
      using decode_ById_heap by blast
    from l Doc ys zs show ?thesis by (auto simp: load_def)
  qed (use l in \<open>auto simp: load_def\<close>)
qed

lemma save_heap: "save w = (e, w') \<Longrightarrow> heap w' = heap w"
  by (auto simp: save_eq split: if_splits)

lemma Index_Add_heap: "Index_Add name im w = (e, w') \<Longrightarrow> \<exists>ys. heap w' = heap w @ ys"
  by (auto simp: Index_Add_def split: prod.splits option.splits list.splits if_splits
      dest!: load_heap save_heap)

lemma Import_result:
  "Import addLayer cid now name archive parent w = (Inr p, w') \<Longrightarrow>
   \<exists>layer. addLayer archive = Inr layer \<and> p < length (heap w') \<and>
     Layers (heap w' ! p) = [layer] @ (case parent of None \<Rightarrow> [] | Some q \<Rightarrow> Layers (heap w ! q)) \<and>
     Parent (heap w' ! p) = (case parent of None \<Rightarrow> [] | Some q \<Rightarrow> Id (heap w ! q))"
proof -
  assume i: "Import addLayer cid now name archive parent w = (Inr p, w')"
  then obtain layer where layer: "addLayer archive = Inr layer"
    by (auto simp: Import_def split: sum.splits)
  define layers where "layers = [layer] @ (case parent of None \<Rightarrow> [] | Some q \<Rightarrow> Layers (heap w ! q))"
  define parentId where "parentId = (case parent of None \<Rightarrow> [] | Some q \<Rightarrow> Id (heap w ! q))"
  from i layer have c: "Create cid now name parentId layers w = (Inr p, w')"
    by (simp add: Import_def layers_def parentId_def)
  then obtain w1 where n: "NewImage cid now name layers parentId w = Inr (p, w1)"
    and a: "Index_Add name p w1 = (None, w')"
    by (auto simp: Create_def split: sum.splits prod.splits option.splits)
  from n have p: "p = length (heap w)"
    and h1: "\<exists>x. heap w1 = heap w @ [x] \<and> Layers x = layers \<and> Parent x = parentId"
    by (auto simp: NewImage_def split: sum.splits)
  from Index_Add_heap [OF a] obtain ys where "heap w' = heap w1 @ ys" by blast
  with p h1 have "p < length (heap w') \<and> Layers (heap w' ! p) = layers \<and> Parent (heap w' ! p) = parentId"
    by (auto simp: nth_append)
  with layer show ?thesis by (simp add: layers_def parentId_def)
qed

lemma Index_Add_succeeds:
  assumes "load w = (None, w1)" and "map_of (ByName w1) name \<noteq> Some []" and "\<not> wfail w"
  shows "fst (Index_Add name im w) = None"
proof -
  from load_frame [OF assms(1)] assms(3) have nf: "\<not> wfail w1" by simp
  show ?thesis
  proof (cases "map_of (ByName w1) name")
    case None
    with assms(1) nf show ?thesis by (simp add: Index_Add_def save_eq)
  next
    case (Some h)
    with assms(2) obtain q rest where "h = q # rest" by (cases h) auto
    with Some assms(1) nf show ?thesis by (simp add: Index_Add_def save_eq)
  qed
qed

text \<open>
  C2. When \<^verbatim>\<open>Store.Import(name, archive, parent)\<close> returns an image, the layer store has
  answered a layer for the archive, the layers of the image are that layer followed by the
  layers of the parent (that layer alone without a parent), and its parent field is the id
  of the parent (empty without a parent). \<^verbatim>\<open>Import\<close> does return an image when the layer
  store answers a layer, an id can be generated, the index loads, the history of the name
  is not an empty list and the write succeeds.
\<close>

theorem Import_chaining:
  "(Import addLayer cid now name archive parent w = (Inr p, w') \<longrightarrow>
     (\<exists>layer. addLayer archive = Inr layer \<and> p < length (heap w') \<and>
       Layers (heap w' ! p) = [layer] @ (case parent of None \<Rightarrow> [] | Some q \<Rightarrow> Layers (heap w ! q)) \<and>
       Parent (heap w' ! p) = (case parent of None \<Rightarrow> [] | Some q \<Rightarrow> Id (heap w ! q)))) \<and>
   (addLayer archive = Inr layer \<and>
    generateImageId cid name
      ([layer] @ (case parent of None \<Rightarrow> [] | Some q \<Rightarrow> Layers (heap w ! q))) = Inr iid \<and>
    load (w\<lparr>heap := heap w @
            [\<lparr>Id = iid,
              Layers = [layer] @ (case parent of None \<Rightarrow> [] | Some q \<Rightarrow> Layers (heap w ! q)),
              Created = now,
              Parent = (case parent of None \<Rightarrow> [] | Some q \<Rightarrow> Id (heap w ! q))\<rparr>]\<rparr>) = (None, w1) \<and>
    map_of (ByName w1) name \<noteq> Some [] \<and> \<not> wfail w \<longrightarrow>
      fst (Import addLayer cid now name archive parent w) = Inr (length (heap w)))"
proof (intro conjI impI)
  assume "Import addLayer cid now name archive parent w = (Inr p, w')"
  then show "\<exists>layer. addLayer archive = Inr layer \<and> p < length (heap w') \<and>
       Layers (heap w' ! p) = [layer] @ (case parent of None \<Rightarrow> [] | Some q \<Rightarrow> Layers (heap w ! q)) \<and>
       Parent (heap w' ! p) = (case parent of None \<Rightarrow> [] | Some q \<Rightarrow> Id (heap w ! q))"
    by (rule Import_result)
next
  define layers where "layers = [layer] @ (case parent of None \<Rightarrow> [] | Some q \<Rightarrow> Layers (heap w ! q))"
  define parentId where "parentId = (case parent of None \<Rightarrow> [] | Some q \<Rightarrow> Id (heap w ! q))"
  define w0 where "w0 = w\<lparr>heap := heap w @
            [\<lparr>Id = iid, Layers = layers, Created = now, Parent = parentId\<rparr>]\<rparr>"
  assume a: "addLayer archive = Inr layer \<and>
    generateImageId cid name
      ([layer] @ (case parent of None \<Rightarrow> [] | Some q \<Rightarrow> Layers (heap w ! q))) = Inr iid \<and>
    load (w\<lparr>heap := heap w @
            [\<lparr>Id = iid,
              Layers = [layer] @ (case parent of None \<Rightarrow> [] | Some q \<Rightarrow> Layers (heap w ! q)),
              Created = now,
              Parent = (case parent of None \<Rightarrow> [] | Some q \<Rightarrow> Id (heap w ! q))\<rparr>]\<rparr>) = (None, w1) \<and>
    map_of (ByName w1) name \<noteq> Some [] \<and> \<not> wfail w"
  then have l: "load w0 = (None, w1)" and g: "generateImageId cid name layers = Inr iid"
    and ne: "map_of (ByName w1) name \<noteq> Some []" and nf: "\<not> wfail w0"
    by (simp_all add: w0_def layers_def parentId_def)
  have n: "NewImage cid now name layers parentId w = Inr (length (heap w), w0)"
    using g by (simp add: NewImage_def w0_def)
  from Index_Add_succeeds [OF l ne nf]
  obtain w2 where "Index_Add name (length (heap w)) w0 = (None, w2)"
    by (metis prod.collapse)
  with n have "Create cid now name parentId layers w = (Inr (length (heap w)), w2)"
    by (simp add: Create_def)
  with a show "fst (Import addLayer cid now name archive parent w) = Inr (length (heap w))"
    by (simp add: Import_def layers_def parentId_def)
qed

theorem Import_chaining_witness:
  "Import (\<lambda>a. Inr ''/l/new'') (\<lambda>s. Inr s) 50 ''snap'' () (Some 0) w_mem3
     = (Inr 3, snd (Import (\<lambda>a. Inr ''/l/new'') (\<lambda>s. Inr s) 50 ''snap'' () (Some 0) w_mem3)) \<and>
   Layers (heap (snd (Import (\<lambda>a. Inr ''/l/new'') (\<lambda>s. Inr s) 50 ''snap'' () (Some 0) w_mem3)) ! 3)
     = [''/l/new'', ''/l/x''] \<and>
   Parent (heap (snd (Import (\<lambda>a. Inr ''/l/new'') (\<lambda>s. Inr s) 50 ''snap'' () (Some 0) w_mem3)) ! 3)
     = ''a:x''"
proof -
  have f: "fst (Import (\<lambda>a. Inr ''/l/new'') (\<lambda>s. Inr s) 50 ''snap'' () (Some 0) w_mem3) = Inr 3"
    by (simp add: Import_def Create_def NewImage_def generateImageId_def Index_Add_def load_def
        save_eq w_mem3_def hp3_def Let_def path_Base_def History_Add_def sort_Sort_def)
  then have e: "Import (\<lambda>a. Inr ''/l/new'') (\<lambda>s. Inr s) 50 ''snap'' () (Some 0) w_mem3
     = (Inr 3, snd (Import (\<lambda>a. Inr ''/l/new'') (\<lambda>s. Inr s) 50 ''snap'' () (Some 0) w_mem3))"
    by (metis prod.collapse)
  from Import_chaining [THEN conjunct1, THEN mp, OF e] e show ?thesis
    by (simp add: w_mem3_def hp3_def)
qed

subsection \<open>Adding to the index\<close>

lemma newest_first_hd:
  assumes "newest_first hp h'" and "mset h' = add_mset im (mset old)"
    and "\<forall>q\<in>set old. Created (hp ! q) < Created (hp ! im)"
  shows "h' \<noteq> [] \<and> h' ! 0 = im"
proof -
  from assms(2) have ne: "h' \<noteq> []" by auto
  from assms(2) have s: "set h' = insert im (set old)"
    by (metis set_mset_add_mset_insert set_mset_mset)
  obtain x xs where h': "h' = x # xs" using ne by (cases h') auto
  have "x = im"
  proof (rule ccontr)
    assume n: "x \<noteq> im"
    with s h' have xo: "x \<in> set old" and ix: "im \<in> set xs" by auto
    from assms(1) h' ix have "Created (hp ! im) \<le> Created (hp ! x)"
      by (auto simp: newest_first_def)
    with assms(3) xo show False by fastforce
  qed
  with h' show ?thesis by simp
qed

lemma History_Add_props:
  "newest_first hp (History_Add hp im h) \<and> mset (History_Add hp im h) = add_mset im (mset h)"
  using sort_Sort_newest_first [of hp "h @ [im]"] sort_Sort_mset [of hp "h @ [im]"]
  by (simp add: History_Add_def)

text \<open>
  C3, as the claim states it, fails: an image that is older than the latest version of the
  name is added behind it, so it does not become the entry at position 0.
\<close>

theorem Index_Add_older_counterexample:
  "fst (Index_Add ''a'' 0 w_one) = None \<and>
   map_of (ByName w_one) ''a'' = Some [2] \<and>
   Id (heap w_one ! 2) \<noteq> Id (heap w_one ! 0) \<and>
   map_of (ByName (snd (Index_Add ''a'' 0 w_one))) ''a'' = Some [2, 0]"
  by (simp add: Index_Add_def load_def save_eq w_one_def hp3_def History_Add_def sort_Sort_def
      Less_img_def)

text \<open>
  C3, amended. Let the load at the start of \<^verbatim>\<open>Index.Add\<close> succeed. When the name has a
  history whose image at position 0 has the id of the given image, \<^verbatim>\<open>Add\<close> returns
  success at once: the index in memory is as the load left it (as it was, when there is no
  index file), and nothing is written.
  When the name is new, or its image at position 0 has another id, and the write succeeds,
  \<^verbatim>\<open>Add\<close> returns success, the history of the name holds the images it held and the
  given one, in the order of creation time, newest first (so the given image is at
  position 0 when it is strictly newer than all the others), the image is registered in
  \<open>ById\<close> under its id, and the index file holds the new index.
\<close>

theorem Index_Add_spec:
  assumes "load w = (None, w1)"
  shows "(\<forall>latest rest. map_of (ByName w1) name = Some (latest # rest) \<and>
            Id (heap w1 ! latest) = Id (heap w1 ! im) \<longrightarrow>
            Index_Add name im w = (None, w1) \<and> fs w1 = fs w \<and>
            (fs w (Path w) = Missing \<longrightarrow> w1 = w)) \<and>
         (\<forall>old. (map_of (ByName w1) name = None \<and> old = [] \<or>
                 map_of (ByName w1) name = Some old \<and> old \<noteq> [] \<and>
                 Id (heap w1 ! (old ! 0)) \<noteq> Id (heap w1 ! im)) \<and> \<not> wfail w \<longrightarrow>
            (\<exists>w' h'. Index_Add name im w = (None, w') \<and> heap w' = heap w1 \<and>
               map_of (ByName w') name = Some h' \<and>
               mset h' = add_mset im (mset old) \<and> newest_first (heap w') h' \<and>
               ((\<forall>q\<in>set old. Created (heap w1 ! q) < Created (heap w1 ! im)) \<longrightarrow> h' ! 0 = im) \<and>
               map_of (ById w') (Id (heap w' ! im)) = Some im \<and>
               fs w' (Path w') = Doc (Marshal w')))"
proof (intro conjI allI impI)
  fix latest rest
  assume "map_of (ByName w1) name = Some (latest # rest) \<and> Id (heap w1 ! latest) = Id (heap w1 ! im)"
  with assms show "Index_Add name im w = (None, w1)" by (simp add: Index_Add_def)
  from load_frame [OF assms] show "fs w1 = fs w" by simp
  assume "fs w (Path w) = Missing"
  with assms show "w1 = w" by (simp add: load_def)
next
  fix old
  assume a: "(map_of (ByName w1) name = None \<and> old = [] \<or>
                 map_of (ByName w1) name = Some old \<and> old \<noteq> [] \<and>
                 Id (heap w1 ! (old ! 0)) \<noteq> Id (heap w1 ! im)) \<and> \<not> wfail w"
  define w2 where "w2 = w1\<lparr>ByName := AList.update name (History_Add (heap w1) im old) (ByName w1),
                         ById := AList.update (Id (heap w1 ! im)) im (ById w1)\<rparr>"
  define w' where "w' = w2\<lparr>fs := (fs w2)(Path w2 := Doc (Marshal w2)),
                          fslog := fslog w2 @ [WriteFile (Path w2) (Marshal w2) 384]\<rparr>"
  from load_frame [OF assms] a have nf: "\<not> wfail w2" by (simp add: w2_def)
  then have sv: "save w2 = (None, w')" by (simp add: save_eq w'_def)
  from a have "Index_Add name im w = save w2"
    using assms by (cases old) (auto simp: Index_Add_def w2_def)
  with sv have r: "Index_Add name im w = (None, w')" by simp
  have hp: "heap w' = heap w1" by (simp add: w'_def w2_def)
  have bn: "map_of (ByName w') name = Some (History_Add (heap w1) im old)"
    by (simp add: w'_def w2_def update_conv')
  have bi: "map_of (ById w') (Id (heap w' ! im)) = Some im"
    by (simp add: w'_def w2_def update_conv')
  have pers: "fs w' (Path w') = Doc (Marshal w')" using sv by (rule save_persists)
  have hd: "(\<forall>q\<in>set old. Created (heap w1 ! q) < Created (heap w1 ! im)) \<longrightarrow>
      History_Add (heap w1) im old ! 0 = im"
    using newest_first_hd [of "heap w1" "History_Add (heap w1) im old" im old] History_Add_props
    by blast
  from r hp bn bi pers hd History_Add_props [of "heap w1" im old]
  show "\<exists>w' h'. Index_Add name im w = (None, w') \<and> heap w' = heap w1 \<and>
               map_of (ByName w') name = Some h' \<and>
               mset h' = add_mset im (mset old) \<and> newest_first (heap w') h' \<and>
               ((\<forall>q\<in>set old. Created (heap w1 ! q) < Created (heap w1 ! im)) \<longrightarrow> h' ! 0 = im) \<and>
               map_of (ById w') (Id (heap w' ! im)) = Some im \<and>
               fs w' (Path w') = Doc (Marshal w')"
    by auto
qed

theorem Index_Add_spec_witness:
  "load w_one = (None, w_one) \<and>
   map_of (ByName w_one) ''a'' = Some [2] \<and> \<not> wfail w_one \<and>
   Index_Add ''a'' 2 w_one = (None, w_one) \<and>
   Id (heap w_one ! ([2] ! 0)) \<noteq> Id (heap w_one ! 1) \<and>
   Created (heap w_one ! 2) < Created (heap w_one ! 1) \<and>
   (\<exists>w' h'. Index_Add ''a'' 1 w_one = (None, w') \<and> map_of (ByName w') ''a'' = Some h' \<and>
      h' ! 0 = 1 \<and> map_of (ById w') (Id (heap w' ! 1)) = Some 1)"
proof -
  have l: "load w_one = (None, w_one)" by (simp add: load_def w_one_def)
  have m: "map_of (ByName w_one) ''a'' = Some [2]" by (simp add: w_one_def)
  have f: "\<not> wfail w_one" by (simp add: w_one_def)
  have d: "Id (heap w_one ! ([2] ! 0)) \<noteq> Id (heap w_one ! 1)" by (simp add: w_one_def hp3_def)
  have c': "Created (heap w_one ! 2) < Created (heap w_one ! 1)"
    by (simp add: w_one_def hp3_def)
  then have c: "\<forall>q\<in>set [2]. Created (heap w_one ! q) < Created (heap w_one ! 1)" by simp
  from Index_Add_spec [OF l, of "''a''" 2] m
  have a: "Index_Add ''a'' 2 w_one = (None, w_one)" by simp
  from Index_Add_spec [OF l, of "''a''" 1] m f d c
  have b: "\<exists>w' h'. Index_Add ''a'' 1 w_one = (None, w') \<and> map_of (ByName w') ''a'' = Some h' \<and>
      h' ! 0 = 1 \<and> map_of (ById w') (Id (heap w' ! 1)) = Some 1"
    by (elim conjE allE [of _ "[2]"]) fastforce
  from l m f d c' a b show ?thesis by blast
qed

subsection \<open>Renaming\<close>

lemma set_Id_nth:
  "Layers (hp[a := (hp ! a)\<lparr>Id := i\<rparr>] ! p) = Layers (hp ! p) \<and>
   Created (hp[a := (hp ! a)\<lparr>Id := i\<rparr>] ! p) = Created (hp ! p) \<and>
   Parent (hp[a := (hp ! a)\<lparr>Id := i\<rparr>] ! p) = Parent (hp ! p) \<and>
   (p \<noteq> a \<longrightarrow> hp[a := (hp ! a)\<lparr>Id := i\<rparr>] ! p = hp ! p)"
proof (cases "a < length hp")
  case True
  then show ?thesis by (cases "a = p") (simp_all add: nth_list_update)
next
  case False
  then show ?thesis by (simp add: list_update_beyond)
qed

lemma rename_loop_frame:
  "rename_loop cid newName h w = (e, w') \<Longrightarrow>
   length (heap w') = length (heap w) \<and> ByName w' = ByName w \<and> fs w' = fs w \<and>
   Path w' = Path w \<and> wfail w' = wfail w \<and> fslog w' = fslog w \<and>
   (\<forall>p. p < length (heap w) \<longrightarrow>
      Layers (heap w' ! p) = Layers (heap w ! p) \<and> Created (heap w' ! p) = Created (heap w ! p) \<and>
      Parent (heap w' ! p) = Parent (heap w ! p) \<and>
      (p \<notin> set h \<longrightarrow> heap w' ! p = heap w ! p))"
proof (induction h arbitrary: w)
  case Nil
  then show ?case by simp
next
  case (Cons a h)
  show ?case
  proof (cases "generateImageId cid newName (Layers (heap w ! a))")
    case (Inl err)
    with Cons.prems show ?thesis by simp
  next
    case (Inr iid)
    define w2 where "w2 = w\<lparr>heap := (heap w)[a := (heap w ! a)\<lparr>Id := iid\<rparr>],
                ById := AList.delete (Id (heap w ! a)) (AList.update iid a (ById w))\<rparr>"
    from Cons.prems Inr have "rename_loop cid newName h w2 = (e, w')"
      by (simp add: w2_def Let_def)
    from Cons.IH [OF this] show ?thesis
      by (auto simp: w2_def set_Id_nth)
  qed
qed

lemma rename_loop_ids:
  "rename_loop cid newName h w = (None, w') \<Longrightarrow> p \<in> set h \<Longrightarrow> p < length (heap w) \<Longrightarrow>
   generateImageId cid newName (Layers (heap w ! p)) = Inr (Id (heap w' ! p))"
proof (induction h arbitrary: w)
  case Nil
  then show ?case by simp
next
  case (Cons a h)
  show ?case
  proof (cases "generateImageId cid newName (Layers (heap w ! a))")
    case (Inl err)
    with Cons.prems show ?thesis by simp
  next
    case (Inr iid)
    define w2 where "w2 = w\<lparr>heap := (heap w)[a := (heap w ! a)\<lparr>Id := iid\<rparr>],
                ById := AList.delete (Id (heap w ! a)) (AList.update iid a (ById w))\<rparr>"
    from Cons.prems Inr have r: "rename_loop cid newName h w2 = (None, w')"
      by (simp add: w2_def Let_def)
    have len: "p < length (heap w2)" using Cons.prems by (simp add: w2_def)
    have lay: "Layers (heap w2 ! p) = Layers (heap w ! p)"
      by (simp add: w2_def set_Id_nth)
    show ?thesis
    proof (cases "p \<in> set h")
      case True
      from Cons.IH [OF r True len] lay show ?thesis by simp
    next
      case False
      with Cons.prems have pa: "p = a" by simp
      from rename_loop_frame [OF r] len False have "heap w' ! p = heap w2 ! p" by blast
      with pa Cons.prems Inr show ?thesis by (simp add: w2_def)
    qed
  qed
qed

text \<open>The entries of \<open>ById\<close> after the loop.\<close>

lemma rename_loop_ById:
  "rename_loop cid newName h w = (None, w') \<Longrightarrow> distinct h \<Longrightarrow>
   \<forall>p\<in>set h. p < length (heap w) \<Longrightarrow>
   \<forall>p\<in>set h. \<forall>q\<in>set h. generateImageId cid newName (Layers (heap w ! p)) \<noteq> Inr (Id (heap w ! q)) \<Longrightarrow>
   (\<forall>p\<in>set h. \<exists>q\<in>set h. map_of (ById w') (Id (heap w' ! p)) = Some q \<and>
        Id (heap w' ! q) = Id (heap w' ! p)) \<and>
   (\<forall>p\<in>set h. map_of (ById w') (Id (heap w ! p)) = None) \<and>
   (\<forall>k. (\<forall>p\<in>set h. k \<noteq> Id (heap w' ! p) \<and> k \<noteq> Id (heap w ! p)) \<longrightarrow>
        map_of (ById w') k = map_of (ById w) k)"
proof (induction h arbitrary: w)
  case Nil
  then show ?case by simp
next
  case (Cons a h)
  from Cons.prems(1) obtain iid where gen: "generateImageId cid newName (Layers (heap w ! a)) = Inr iid"
    by (cases "generateImageId cid newName (Layers (heap w ! a))") auto
  define w2 where "w2 = w\<lparr>heap := (heap w)[a := (heap w ! a)\<lparr>Id := iid\<rparr>],
                ById := AList.delete (Id (heap w ! a)) (AList.update iid a (ById w))\<rparr>"
  from Cons.prems(1) gen have r: "rename_loop cid newName h w2 = (None, w')"
    by (simp add: w2_def Let_def)
  from Cons.prems(2) have anh: "a \<notin> set h" and dh: "distinct h" by auto
  have same: "\<And>p. p \<in> set h \<Longrightarrow> heap w2 ! p = heap w ! p"
  proof -
    fix p assume "p \<in> set h"
    with anh have "p \<noteq> a" by auto
    then show "heap w2 ! p = heap w ! p" by (simp add: w2_def set_Id_nth)
  qed
  have len2: "\<forall>p\<in>set h. p < length (heap w2)" using Cons.prems(3) by (simp add: w2_def)
  have dis2: "\<forall>p\<in>set h. \<forall>q\<in>set h.
      generateImageId cid newName (Layers (heap w2 ! p)) \<noteq> Inr (Id (heap w2 ! q))"
    using Cons.prems(4) same by simp
  note IH = Cons.IH [OF r dh len2 dis2]
  have alen: "a < length (heap w)" using Cons.prems(3) by simp
  have a': "heap w' ! a = heap w2 ! a"
    using rename_loop_frame [OF r] anh alen by (simp add: w2_def)
  then have ida: "Id (heap w' ! a) = iid" using alen by (simp add: w2_def)
  have ne: "iid \<noteq> Id (heap w ! a)" using Cons.prems(4) gen by fastforce
  have new_old: "\<And>q. q \<in> set h \<Longrightarrow> iid \<noteq> Id (heap w ! q)"
    using Cons.prems(4) gen by fastforce
  have old_new: "\<And>p. p \<in> set h \<Longrightarrow> Id (heap w' ! p) \<noteq> Id (heap w ! a)"
  proof -
    fix p assume p: "p \<in> set h"
    from rename_loop_ids [OF r p] len2 p same [OF p]
    have "generateImageId cid newName (Layers (heap w ! p)) = Inr (Id (heap w' ! p))" by simp
    with Cons.prems(4) p show "Id (heap w' ! p) \<noteq> Id (heap w ! a)" by fastforce
  qed
  have byid2_new: "map_of (ById w2) iid = Some a"
    using ne by (simp add: w2_def delete_conv' update_conv')
  have byid2_old: "map_of (ById w2) (Id (heap w ! a)) = None"
    by (simp add: w2_def delete_conv')
  have byid2_other: "\<And>k. k \<noteq> iid \<Longrightarrow> k \<noteq> Id (heap w ! a) \<Longrightarrow> map_of (ById w2) k = map_of (ById w) k"
    by (simp add: w2_def delete_conv' update_conv')
  have 1: "\<forall>p\<in>set (a # h). \<exists>q\<in>set (a # h). map_of (ById w') (Id (heap w' ! p)) = Some q \<and>
        Id (heap w' ! q) = Id (heap w' ! p)"
  proof
    fix p assume p: "p \<in> set (a # h)"
    show "\<exists>q\<in>set (a # h). map_of (ById w') (Id (heap w' ! p)) = Some q \<and>
        Id (heap w' ! q) = Id (heap w' ! p)"
    proof (cases "p \<in> set h")
      case True
      with IH show ?thesis by auto
    next
      case False
      with p have pa: "p = a" by simp
      show ?thesis
      proof (cases "\<exists>q\<in>set h. Id (heap w' ! q) = iid")
        case True
        then obtain q where q: "q \<in> set h" "Id (heap w' ! q) = iid" by blast
        with IH obtain q' where "q' \<in> set h" "map_of (ById w') iid = Some q'"
          "Id (heap w' ! q') = iid" by force
        with pa ida show ?thesis by auto
      next
        case False
        with new_old same have "\<forall>p\<in>set h. iid \<noteq> Id (heap w' ! p) \<and> iid \<noteq> Id (heap w2 ! p)"
          by auto
        with IH have "map_of (ById w') iid = map_of (ById w2) iid" by blast
        with byid2_new pa ida show ?thesis by auto
      qed
    qed
  qed
  have 2: "\<forall>p\<in>set (a # h). map_of (ById w') (Id (heap w ! p)) = None"
  proof
    fix p assume p: "p \<in> set (a # h)"
    show "map_of (ById w') (Id (heap w ! p)) = None"
    proof (cases "p \<in> set h")
      case True
      with IH same show ?thesis by auto
    next
      case False
      with p have pa: "p = a" by simp
      show ?thesis
      proof (cases "\<exists>q\<in>set h. Id (heap w ! q) = Id (heap w ! a)")
        case True
        then obtain q where q: "q \<in> set h" "Id (heap w ! q) = Id (heap w ! a)" by blast
        with IH same have "map_of (ById w') (Id (heap w ! q)) = None" by auto
        with q pa show ?thesis by simp
      next
        case False
        with old_new same
        have "\<forall>p\<in>set h. Id (heap w ! a) \<noteq> Id (heap w' ! p) \<and> Id (heap w ! a) \<noteq> Id (heap w2 ! p)"
          by (metis)
        with IH have "map_of (ById w') (Id (heap w ! a)) = map_of (ById w2) (Id (heap w ! a))"
          by blast
        with byid2_old pa show ?thesis by simp
      qed
    qed
  qed
  have 3: "\<forall>k. (\<forall>p\<in>set (a # h). k \<noteq> Id (heap w' ! p) \<and> k \<noteq> Id (heap w ! p)) \<longrightarrow>
        map_of (ById w') k = map_of (ById w) k"
  proof (intro allI impI)
    fix k assume k: "\<forall>p\<in>set (a # h). k \<noteq> Id (heap w' ! p) \<and> k \<noteq> Id (heap w ! p)"
    with same have "\<forall>p\<in>set h. k \<noteq> Id (heap w' ! p) \<and> k \<noteq> Id (heap w2 ! p)" by auto
    with IH have "map_of (ById w') k = map_of (ById w2) k" by blast
    moreover from k ida have "k \<noteq> iid" "k \<noteq> Id (heap w ! a)" by auto
    ultimately show "map_of (ById w') k = map_of (ById w) k" using byid2_other by simp
  qed
  from 1 2 3 show ?case by blast
qed

lemma rename_loop_succeeds:
  "\<forall>p\<in>set h. \<exists>i. generateImageId cid newName (Layers (heap w ! p)) = Inr i \<Longrightarrow>
   \<exists>w'. rename_loop cid newName h w = (None, w')"
proof (induction h arbitrary: w)
  case Nil
  then show ?case by simp
next
  case (Cons a h)
  then obtain iid where gen: "generateImageId cid newName (Layers (heap w ! a)) = Inr iid"
    by auto
  define w2 where "w2 = w\<lparr>heap := (heap w)[a := (heap w ! a)\<lparr>Id := iid\<rparr>],
                ById := AList.delete (Id (heap w ! a)) (AList.update iid a (ById w))\<rparr>"
  from Cons.prems have "\<forall>p\<in>set h. \<exists>i. generateImageId cid newName (Layers (heap w2 ! p)) = Inr i"
    by (simp add: w2_def set_Id_nth)
  from Cons.IH [OF this] gen show ?case by (simp add: w2_def Let_def)
qed

lemma decode_ByName_keys:
  "fst ` set (ByName (decode_ByName d w)) = fst ` set (ByName w) \<union> fst ` set d"
  by (induction d w rule: decode_ByName.induct) (auto simp: dom_update)

lemma decode_ById_keys:
  "fst ` set (ById (decode_ById d w)) = fst ` set (ById w) \<union> fst ` set d"
  by (induction d w rule: decode_ById.induct) (auto simp: dom_update)

lemma Marshal_keys:
  "fst ` set (doc_ByName (Marshal w)) = fst ` set (ByName w) \<and>
   fst ` set (doc_ById (Marshal w)) = fst ` set (ById w)"
  by (force simp: Marshal_def)

lemma Find_absent_after_save:
  assumes "fs w (Path w) = Doc (Marshal w)"
    and "map_of (ByName w) k = None" and "map_of (ById w) k = None"
  shows "fst (Find k w) = None"
proof -
  define w1 where "w1 = decode_ById (doc_ById (Marshal w)) (decode_ByName (doc_ByName (Marshal w)) w)"
  from assms(1) have l: "load w = (None, w1)" by (simp add: load_def w1_def)
  have "fst ` set (ByName w1) = fst ` set (ByName w)"
    by (simp add: w1_def decode_ById_frame decode_ByName_keys Marshal_keys)
  with assms(2) have n: "map_of (ByName w1) k = None" by (simp add: map_of_eq_None_iff)
  have "fst ` set (ById w1) = fst ` set (ById w)"
    by (simp add: w1_def decode_ById_keys decode_ByName_frame Marshal_keys)
  with assms(3) have i: "map_of (ById w1) k = None" by (simp add: map_of_eq_None_iff)
  from l n i show ?thesis by (simp add: Find_def)
qed

text \<open>
  C5, as the claim states it, fails: the rename is not atomic. When the write of the index
  file fails, \<^verbatim>\<open>Rename\<close> returns the error, and the index in memory has the history
  under the new name already.
\<close>

theorem Rename_not_atomic_counterexample:
  "fst (Rename (\<lambda>s. Inr s) ''a'' ''b'' w_readonly) = Some WriteFileError \<and>
   map_of (ByName w_readonly) ''a'' = Some [1, 2, 0] \<and>
   map_of (ByName (snd (Rename (\<lambda>s. Inr s) ''a'' ''b'' w_readonly))) ''a'' = None \<and>
   map_of (ByName (snd (Rename (\<lambda>s. Inr s) ''a'' ''b'' w_readonly))) ''b'' = Some [1, 2, 0]"
  by code_simp

text \<open>
  C5, amended. Let the load at the start of \<^verbatim>\<open>Rename(old, new)\<close> succeed. \<^verbatim>\<open>Rename\<close>
  fails, with the index as the load left it and nothing written, when \<open>old\<close> is not a
  registered name or \<open>new\<close> is one. It succeeds when \<open>old\<close> is registered, \<open>new\<close> is
  free, an id can be generated for every image of the history and the write succeeds. On
  success \<open>old\<close> is no longer a name (and \<^verbatim>\<open>Find(old)\<close> returns no image unless \<open>old\<close>
  is also the id of an image), the history is filed under \<open>new\<close>, and every image of it has
  its id recomputed from \<open>new\<close> and its layers, all else unchanged. When the images of the
  history are distinct objects and no recomputed id is the previous id of one of them, every
  recomputed id is filed in \<open>ById\<close> to an image of the history that bears it, and the
  previous ids are no longer in \<open>ById\<close>. Nothing is rolled back when \<^verbatim>\<open>Rename\<close> fails
  after the history has been moved.
\<close>

theorem Rename_spec:
  assumes "load w = (None, w1)"
  shows
  "(map_of (ByName w1) oldName = None \<longrightarrow>
      Rename cid oldName newName w
        = (Some (ErrMsg (''Can't rename '' @ oldName @ '': no such image.'')), w1)) \<and>
   (map_of (ByName w1) oldName \<noteq> None \<and> map_of (ByName w1) newName \<noteq> None \<longrightarrow>
      Rename cid oldName newName w
        = (Some (ErrMsg (''Can't rename to '' @ newName @ '': name is already in use.'')), w1)) \<and>
   fs w1 = fs w \<and>
   (\<forall>h. map_of (ByName w1) oldName = Some h \<and> map_of (ByName w1) newName = None \<and>
        (\<forall>p\<in>set h. \<exists>i. generateImageId cid newName (Layers (heap w1 ! p)) = Inr i) \<and>
        \<not> wfail w \<longrightarrow>
        fst (Rename cid oldName newName w) = None) \<and>
   (\<forall>w'. Rename cid oldName newName w = (None, w') \<longrightarrow>
      (\<exists>h. map_of (ByName w1) oldName = Some h \<and> map_of (ByName w1) newName = None \<and>
           map_of (ByName w') oldName = None \<and> map_of (ByName w') newName = Some h \<and>
           (map_of (ById w') oldName = None \<longrightarrow> fst (Find oldName w') = None) \<and>
           (\<forall>p\<in>set h. p < length (heap w1) \<longrightarrow>
               generateImageId cid newName (Layers (heap w1 ! p)) = Inr (Id (heap w' ! p)) \<and>
               Layers (heap w' ! p) = Layers (heap w1 ! p) \<and>
               Created (heap w' ! p) = Created (heap w1 ! p) \<and>
               Parent (heap w' ! p) = Parent (heap w1 ! p)) \<and>
           (distinct h \<and> (\<forall>p\<in>set h. p < length (heap w1)) \<and>
            (\<forall>p\<in>set h. \<forall>q\<in>set h.
                generateImageId cid newName (Layers (heap w1 ! p)) \<noteq> Inr (Id (heap w1 ! q))) \<longrightarrow>
               (\<forall>p\<in>set h. \<exists>q\<in>set h. map_of (ById w') (Id (heap w' ! p)) = Some q \<and>
                    Id (heap w' ! q) = Id (heap w' ! p)) \<and>
               (\<forall>p\<in>set h. map_of (ById w') (Id (heap w1 ! p)) = None))))"
proof (intro conjI allI impI)
  assume "map_of (ByName w1) oldName = None"
  with assms show "Rename cid oldName newName w
        = (Some (ErrMsg (''Can't rename '' @ oldName @ '': no such image.'')), w1)"
    by (simp add: Rename_def)
next
  assume "map_of (ByName w1) oldName \<noteq> None \<and> map_of (ByName w1) newName \<noteq> None"
  with assms show "Rename cid oldName newName w
        = (Some (ErrMsg (''Can't rename to '' @ newName @ '': name is already in use.'')), w1)"
    by (auto simp: Rename_def)
next
  from load_frame [OF assms] show "fs w1 = fs w" by simp
next
  fix h
  assume a: "map_of (ByName w1) oldName = Some h \<and> map_of (ByName w1) newName = None \<and>
        (\<forall>p\<in>set h. \<exists>i. generateImageId cid newName (Layers (heap w1 ! p)) = Inr i) \<and>
        \<not> wfail w"
  define w2 where "w2 = w1\<lparr>ByName := AList.delete oldName (AList.update newName h (ByName w1))\<rparr>"
  from a have "\<forall>p\<in>set h. \<exists>i. generateImageId cid newName (Layers (heap w2 ! p)) = Inr i"
    by (simp add: w2_def)
  from rename_loop_succeeds [OF this] obtain w3 where l: "rename_loop cid newName h w2 = (None, w3)"
    by blast
  from rename_loop_frame [OF l] load_frame [OF assms] a have "\<not> wfail w3" by (simp add: w2_def)
  then have "fst (save w3) = None" by (simp add: save_eq)
  with assms a l show "fst (Rename cid oldName newName w) = None"
    by (simp add: Rename_def w2_def)
next
  fix w'
  assume r: "Rename cid oldName newName w = (None, w')"
  with assms obtain h where h: "map_of (ByName w1) oldName = Some h"
    by (cases "map_of (ByName w1) oldName") (auto simp: Rename_def)
  from r assms h have free: "map_of (ByName w1) newName = None"
    by (auto simp: Rename_def split: if_splits)
  define w2 where "w2 = w1\<lparr>ByName := AList.delete oldName (AList.update newName h (ByName w1))\<rparr>"
  from r assms h free obtain w3 where l: "rename_loop cid newName h w2 = (None, w3)"
    and s: "save w3 = (None, w')"
    by (auto simp: Rename_def w2_def split: prod.splits option.splits)
  from s have w': "w' = w3\<lparr>fs := (fs w3)(Path w3 := Doc (Marshal w3)),
                          fslog := fslog w3 @ [WriteFile (Path w3) (Marshal w3) 384]\<rparr>"
    by (auto simp: save_eq split: if_splits)
  note fr = rename_loop_frame [OF l]
  have on: "oldName \<noteq> newName" using h free by auto
  have bn: "ByName w' = AList.delete oldName (AList.update newName h (ByName w1))"
    using fr by (simp add: w' w2_def)
  have 1: "map_of (ByName w') oldName = None" by (simp add: bn delete_conv')
  have 2: "map_of (ByName w') newName = Some h" using on by (simp add: bn delete_conv' update_conv')
  have hp': "heap w' = heap w3" by (simp add: w')
  have hp2: "heap w2 = heap w1" by (simp add: w2_def)
  have bi': "ById w' = ById w3" by (simp add: w')
  have 3: "map_of (ById w') oldName = None \<longrightarrow> fst (Find oldName w') = None"
    using Find_absent_after_save [OF save_persists [OF s] 1] by blast
  have 4: "\<forall>p\<in>set h. p < length (heap w1) \<longrightarrow>
               generateImageId cid newName (Layers (heap w1 ! p)) = Inr (Id (heap w' ! p)) \<and>
               Layers (heap w' ! p) = Layers (heap w1 ! p) \<and>
               Created (heap w' ! p) = Created (heap w1 ! p) \<and>
               Parent (heap w' ! p) = Parent (heap w1 ! p)"
  proof (intro ballI impI)
    fix p assume p: "p \<in> set h" "p < length (heap w1)"
    from rename_loop_ids [OF l p(1)] p(2)
    have "generateImageId cid newName (Layers (heap w1 ! p)) = Inr (Id (heap w' ! p))"
      by (simp add: hp' hp2)
    moreover from fr p(2) have "Layers (heap w' ! p) = Layers (heap w1 ! p) \<and>
               Created (heap w' ! p) = Created (heap w1 ! p) \<and>
               Parent (heap w' ! p) = Parent (heap w1 ! p)"
      by (simp add: hp' hp2)
    ultimately show "generateImageId cid newName (Layers (heap w1 ! p)) = Inr (Id (heap w' ! p)) \<and>
               Layers (heap w' ! p) = Layers (heap w1 ! p) \<and>
               Created (heap w' ! p) = Created (heap w1 ! p) \<and>
               Parent (heap w' ! p) = Parent (heap w1 ! p)" by simp
  qed
  have 5: "distinct h \<and> (\<forall>p\<in>set h. p < length (heap w1)) \<and>
            (\<forall>p\<in>set h. \<forall>q\<in>set h.
                generateImageId cid newName (Layers (heap w1 ! p)) \<noteq> Inr (Id (heap w1 ! q))) \<longrightarrow>
               (\<forall>p\<in>set h. \<exists>q\<in>set h. map_of (ById w') (Id (heap w' ! p)) = Some q \<and>
                    Id (heap w' ! q) = Id (heap w' ! p)) \<and>
               (\<forall>p\<in>set h. map_of (ById w') (Id (heap w1 ! p)) = None)"
  proof
    assume a: "distinct h \<and> (\<forall>p\<in>set h. p < length (heap w1)) \<and>
            (\<forall>p\<in>set h. \<forall>q\<in>set h.
                generateImageId cid newName (Layers (heap w1 ! p)) \<noteq> Inr (Id (heap w1 ! q)))"
    then have d: "distinct h" and v: "\<forall>p\<in>set h. p < length (heap w2)"
      and x: "\<forall>p\<in>set h. \<forall>q\<in>set h.
                generateImageId cid newName (Layers (heap w2 ! p)) \<noteq> Inr (Id (heap w2 ! q))"
      by (simp_all add: hp2)
    from rename_loop_ById [OF l d v x]
    show "(\<forall>p\<in>set h. \<exists>q\<in>set h. map_of (ById w') (Id (heap w' ! p)) = Some q \<and>
                    Id (heap w' ! q) = Id (heap w' ! p)) \<and>
               (\<forall>p\<in>set h. map_of (ById w') (Id (heap w1 ! p)) = None)"
      by (simp add: hp' hp2 bi')
  qed
  from h free 1 2 3 4 5
  show "\<exists>h. map_of (ByName w1) oldName = Some h \<and> map_of (ByName w1) newName = None \<and>
           map_of (ByName w') oldName = None \<and> map_of (ByName w') newName = Some h \<and>
           (map_of (ById w') oldName = None \<longrightarrow> fst (Find oldName w') = None) \<and>
           (\<forall>p\<in>set h. p < length (heap w1) \<longrightarrow>
               generateImageId cid newName (Layers (heap w1 ! p)) = Inr (Id (heap w' ! p)) \<and>
               Layers (heap w' ! p) = Layers (heap w1 ! p) \<and>
               Created (heap w' ! p) = Created (heap w1 ! p) \<and>
               Parent (heap w' ! p) = Parent (heap w1 ! p)) \<and>
           (distinct h \<and> (\<forall>p\<in>set h. p < length (heap w1)) \<and>
            (\<forall>p\<in>set h. \<forall>q\<in>set h.
                generateImageId cid newName (Layers (heap w1 ! p)) \<noteq> Inr (Id (heap w1 ! q))) \<longrightarrow>
               (\<forall>p\<in>set h. \<exists>q\<in>set h. map_of (ById w') (Id (heap w' ! p)) = Some q \<and>
                    Id (heap w' ! q) = Id (heap w' ! p)) \<and>
               (\<forall>p\<in>set h. map_of (ById w') (Id (heap w1 ! p)) = None))"
    by (intro exI [of _ h] conjI)
qed

theorem Rename_spec_witness:
  "load w_mem3 = (None, w_mem3) \<and>
   map_of (ByName w_mem3) ''a'' = Some [1, 2, 0] \<and>
   Rename (\<lambda>s. Inr s) ''a'' ''b'' w_mem3 = (None, snd (Rename (\<lambda>s. Inr s) ''a'' ''b'' w_mem3)) \<and>
   distinct [1, 2, 0 :: nat] \<and>
   map_of (ById (snd (Rename (\<lambda>s. Inr s) ''a'' ''b'' w_mem3))) ''a'' = None \<and>
   map_of (ByName (snd (Rename (\<lambda>s. Inr s) ''a'' ''b'' w_mem3))) ''a'' = None \<and>
   map_of (ByName (snd (Rename (\<lambda>s. Inr s) ''a'' ''b'' w_mem3))) ''b'' = Some [1, 2, 0] \<and>
   fst (Find ''a'' (snd (Rename (\<lambda>s. Inr s) ''a'' ''b'' w_mem3))) = None \<and>
   Id (heap (snd (Rename (\<lambda>s. Inr s) ''a'' ''b'' w_mem3)) ! 0) = ''b:x'' \<and>
   map_of (ById (snd (Rename (\<lambda>s. Inr s) ''a'' ''b'' w_mem3))) (Id (heap w_mem3 ! 0)) = None \<and>
   map_of (ById (snd (Rename (\<lambda>s. Inr s) ''a'' ''b'' w_mem3))) (Id (heap w_mem3 ! 1)) = None \<and>
   map_of (ById (snd (Rename (\<lambda>s. Inr s) ''a'' ''b'' w_mem3))) (Id (heap w_mem3 ! 2)) = None"
proof -
  let ?R = "Rename (\<lambda>s. Inr s) ''a'' ''b'' w_mem3"
  have l: "load w_mem3 = (None, w_mem3)" by (simp add: load_def w_mem3_def)
  have o: "map_of (ByName w_mem3) ''a'' = Some [1, 2, 0]" by (simp add: w_mem3_def)
  have f: "fst ?R = None" by code_simp
  have e: "?R = (None, snd ?R)" by (rule prod_eqI) (simp_all add: f)
  have d: "distinct [1, 2, 0 :: nat] \<and> (\<forall>p\<in>set [1, 2, 0]. p < length (heap w_mem3)) \<and>
    (\<forall>p\<in>set [1, 2, 0]. \<forall>q\<in>set [1, 2, 0].
       generateImageId (\<lambda>s. Inr s) ''b'' (Layers (heap w_mem3 ! p)) \<noteq> Inr (Id (heap w_mem3 ! q)))"
    by code_simp
  have m: "map_of (ById (snd ?R)) ''a'' = None" by code_simp
  have i: "Id (heap (snd ?R) ! 0) = ''b:x''" by code_simp
  note E = Rename_spec [OF l, where oldName = "''a''" and newName = "''b''" and cid = "\<lambda>s. Inr s",
      THEN conjunct2, THEN conjunct2, THEN conjunct2, THEN conjunct2, THEN spec, THEN mp, OF e]
  from E show ?thesis
  proof (elim exE conjE)
    fix h
    assume h: "map_of (ByName w_mem3) ''a'' = Some h"
      and 1: "map_of (ByName (snd ?R)) ''a'' = None"
      and 2: "map_of (ByName (snd ?R)) ''b'' = Some h"
      and 3: "map_of (ById (snd ?R)) ''a'' = None \<longrightarrow> fst (Find ''a'' (snd ?R)) = None"
      and 5: "distinct h \<and> (\<forall>p\<in>set h. p < length (heap w_mem3)) \<and>
            (\<forall>p\<in>set h. \<forall>q\<in>set h.
                generateImageId (\<lambda>s. Inr s) ''b'' (Layers (heap w_mem3 ! p))
                  \<noteq> Inr (Id (heap w_mem3 ! q))) \<longrightarrow>
               (\<forall>p\<in>set h. \<exists>q\<in>set h. map_of (ById (snd ?R)) (Id (heap (snd ?R) ! p)) = Some q \<and>
                    Id (heap (snd ?R) ! q) = Id (heap (snd ?R) ! p)) \<and>
               (\<forall>p\<in>set h. map_of (ById (snd ?R)) (Id (heap w_mem3 ! p)) = None)"
    from h o have hh: "h = [1, 2, 0]" by (simp only: option.inject)
    from 5 [unfolded hh, THEN mp, OF d, THEN conjunct2]
    have 6: "\<forall>p\<in>set [1, 2, 0]. map_of (ById (snd ?R)) (Id (heap w_mem3 ! p)) = None" .
    have in0: "(0::nat) \<in> set [1, 2, 0]" and in1: "(1::nat) \<in> set [1, 2, 0]"
      and in2: "(2::nat) \<in> set [1, 2, 0]" by simp_all
    from 3 [THEN mp, OF m] have 7: "fst (Find ''a'' (snd ?R)) = None" .
    from l o e d [THEN conjunct1] m 1 2 [unfolded hh] 7 i
      6 [THEN bspec, OF in0] 6 [THEN bspec, OF in1] 6 [THEN bspec, OF in2]
    show ?thesis by (intro conjI)
  qed
qed

subsection \<open>Persisting\<close>

lemma save_log:
  "save w = (None, w') \<Longrightarrow>
   fs w' (Path w') = Doc (Marshal w') \<and>
   fslog w' = fslog w @ [WriteFile (Path w') (Marshal w') 384]"
  by (auto simp: save_eq split: if_splits)

lemma save_frame: "save w = (e, w') \<Longrightarrow> Path w' = Path w \<and> Marshal w' = Marshal w"
  by (auto simp: save_eq split: if_splits)

lemma Index_Add_log:
  assumes "Index_Add name im w = (None, w')"
  shows "w' = snd (load w) \<and> fslog w' = fslog w \<or>
         fs w' (Path w') = Doc (Marshal w') \<and>
         fslog w' = fslog w @ [WriteFile (Path w') (Marshal w') 384]"
proof -
  obtain e w1 where l: "load w = (e, w1)" by (cases "load w")
  with assms have e: "e = None" by (cases e) (auto simp: Index_Add_def)
  note fr = load_frame [OF l] load_log [OF l]
  define w2 where "w2 = (\<lambda>old. w1\<lparr>ByName := AList.update name (History_Add (heap w1) im old) (ByName w1),
                         ById := AList.update (Id (heap w1 ! im)) im (ById w1)\<rparr>)"
  have w2: "\<And>old. fslog (w2 old) = fslog w"
    using fr by (simp add: w2_def)
  from assms l e have "w' = w1 \<or> (\<exists>old. save (w2 old) = (None, w'))"
    by (auto simp: Index_Add_def w2_def split: option.splits list.splits if_splits)
  then show ?thesis
  proof
    assume "w' = w1"
    with l fr show ?thesis by simp
  next
    assume "\<exists>old. save (w2 old) = (None, w')"
    then obtain old where "save (w2 old) = (None, w')" by blast
    from save_log [OF this] w2 [of old] show ?thesis by simp
  qed
qed

lemma Rename_log:
  assumes "Rename cid oldName newName w = (None, w')"
  shows "fs w' (Path w') = Doc (Marshal w') \<and>
         fslog w' = fslog w @ [WriteFile (Path w') (Marshal w') 384]"
proof -
  obtain e w1 where l: "load w = (e, w1)" by (cases "load w")
  with assms have e: "e = None" by (cases e) (auto simp: Rename_def)
  from assms l e obtain h w2 where r: "rename_loop cid newName h
        (w1\<lparr>ByName := AList.delete oldName (AList.update newName h (ByName w1))\<rparr>) = (None, w2)"
    and s: "save w2 = (None, w')"
    by (auto simp: Rename_def split: option.splits if_splits prod.splits)
  from rename_loop_frame [OF r] load_log [OF l] have "fslog w2 = fslog w" by simp
  with save_log [OF s] show ?thesis by simp
qed

lemma Delete_log:
  assumes "Delete name w = (None, w')"
  shows "fs w' (Path w') = Doc (Marshal w') \<and>
         fslog w' = fslog w @ [WriteFile (Path w') (Marshal w') 384]"
proof -
  obtain e w1 where l: "load w = (e, w1)" by (cases "load w")
  with assms have e: "e = None" by (cases e) (auto simp: Delete_def)
  from assms l e obtain h where s: "save (w1\<lparr>ById := foldl (\<lambda>m im. AList.delete (Id (heap w1 ! im)) m) (ById w1) h,
                         ByName := AList.delete name (ByName w1)\<rparr>) = (None, w')"
    by (auto simp: Delete_def split: option.splits)
  from save_log [OF s] load_log [OF l] show ?thesis by simp
qed

lemma DeleteMatch_loop_frame:
  "DeleteMatch_loop matchString pattern names w = (e, w') \<Longrightarrow> fslog w' = fslog w"
proof (induction names arbitrary: w)
  case Nil
  then show ?case by simp
next
  case (Cons a names)
  obtain name history where a: "a = (name, history)" by (cases a)
  show ?case
  proof (cases "matchString pattern name")
    case (Inl err)
    with Cons.prems a show ?thesis by simp
  next
    case (Inr matched)
    show ?thesis
    proof (cases matched)
      case True
      with Cons.prems a Inr
      have "DeleteMatch_loop matchString pattern names
              (w\<lparr>ById := foldl (\<lambda>m im. AList.delete (Id (heap w ! im)) m) (ById w) history,
                 ByName := AList.delete name (ByName w)\<rparr>) = (e, w')" by simp
      from Cons.IH [OF this] show ?thesis by simp
    next
      case False
      with Cons.prems a Inr have "DeleteMatch_loop matchString pattern names w = (e, w')" by simp
      from Cons.IH [OF this] show ?thesis .
    qed
  qed
qed

lemma DeleteMatch_log:
  assumes "DeleteMatch matchString pattern w = (None, w')"
  shows "fs w' (Path w') = Doc (Marshal w') \<and>
         fslog w' = fslog w @ [WriteFile (Path w') (Marshal w') 384]"
proof -
  obtain e w1 where l: "load w = (e, w1)" by (cases "load w")
  with assms have e: "e = None" by (cases e) (auto simp: DeleteMatch_def)
  from assms l e obtain w2 where r: "DeleteMatch_loop matchString pattern (ByName w1) w1 = (None, w2)"
    and s: "save w2 = (None, w')"
    by (auto simp: DeleteMatch_def split: option.splits prod.splits)
  from DeleteMatch_loop_frame [OF r] load_log [OF l] have "fslog w2 = fslog w" by simp
  with save_log [OF s] show ?thesis by simp
qed

lemma Copy_log:
  assumes "Copy cid now srcNameOrId dstName w = (Inr dst, w')"
  shows "fs w' (Path w') = Doc (Marshal w') \<and>
         (fslog w' = fslog w @ [WriteFile (Path w') (Marshal w') 384] \<or>
          fslog w' = fslog w @ [WriteFile (Path w') (Marshal w') 384,
                                WriteFile (Path w') (Marshal w') 384])"
proof -
  from assms have ne: "srcNameOrId \<noteq> [] \<and> dstName \<noteq> []"
    by (auto simp: Copy_def split: if_splits)
  obtain e w1 where l: "load w = (e, w1)" by (cases "load w")
  with assms ne have e: "e = None" by (cases e) (auto simp: Copy_def)
  obtain r w2 where f: "Find srcNameOrId w1 = (r, w2)" by (cases "Find srcNameOrId w1")
  with assms ne l e obtain src where r: "r = Some src" by (cases r) (auto simp: Copy_def)
  obtain e2 w2' where l2: "load w1 = (e2, w2')" by (cases "load w1")
  with f have w2: "w2 = w2'"
    by (auto simp: Find_def split: option.splits list.splits)
  from assms ne l e f r obtain w3 w4 where
    n: "NewImage cid now dstName (Layers (heap w2 ! src)) (Id (heap w2 ! src)) w2 = Inr (dst, w3)"
    and a: "Index_Add dstName dst w3 = (None, w4)" and s: "save w4 = (None, w')"
    by (auto simp: Copy_def split: sum.splits prod.splits option.splits)
  from n have "fslog w3 = fslog w2 \<and> Path w3 = Path w2"
    by (auto simp: NewImage_def split: sum.splits)
  with load_log [OF l] load_log [OF l2] w2 have 3: "fslog w3 = fslog w" by simp
  from Index_Add_log [OF a]
  have 4: "fslog w4 = fslog w3 \<or> fslog w4 = fslog w3 @ [WriteFile (Path w4) (Marshal w4) 384]"
    by auto
  from save_frame [OF s] have 5: "Path w4 = Path w'" "Marshal w4 = Marshal w'" by simp_all
  from save_log [OF s] 3 4 show ?thesis unfolding 5 by auto
qed

text \<open>
  C8, as the claim states it, fails: the one call that \<^verbatim>\<open>save\<close> makes writes the index
  file itself; no temporary file is written and nothing is renamed.
\<close>

theorem save_calls_counterexample:
  "save_calls w_new = [WriteFile ''index.json'' \<lparr>doc_ByName = [], doc_ById = []\<rparr> 384] \<and>
   \<not> write_then_rename (Path w_new) (save_calls w_new)"
  by (simp add: save_calls_def write_then_rename_def w_new_def NewIndex_def Marshal_def)

text \<open>
  C8, amended. Every mutating operation of the index persists its result by a save, and a
  save is one \<^verbatim>\<open>WriteFile\<close> of the whole serialized document to the index path itself: no
  temporary file, no rename. When \<^verbatim>\<open>Rename\<close>, \<^verbatim>\<open>Delete\<close> or \<^verbatim>\<open>DeleteMatch\<close> succeed
  they have issued exactly this one write, of the document of the resulting index, and the
  index file holds it; so has \<^verbatim>\<open>Add\<close>, unless it found the image to be the latest version
  already and returned after the load without writing. A \<^verbatim>\<open>Copy\<close> that succeeds has issued
  the write once or twice (in \<^verbatim>\<open>Add\<close> and then itself). A write that fails returns the
  error with the index in memory as modified, and the file is as it was or cut short.
\<close>

theorem save_in_place:
  "save_calls w = [WriteFile (Path w) (Marshal w) 384] \<and>
   save w =
     (if wfail w
      then (Some WriteFileError,
            w\<lparr>fs := (if wtrunc w then (fs w)(Path w := Invalid) else fs w),
              fslog := fslog w @ [WriteFile (Path w) (Marshal w) 384]\<rparr>)
      else (None, w\<lparr>fs := (fs w)(Path w := Doc (Marshal w)),
                    fslog := fslog w @ [WriteFile (Path w) (Marshal w) 384]\<rparr>)) \<and>
   (Index_Add name im w = (None, w') \<longrightarrow>
      w' = snd (load w) \<and> fslog w' = fslog w \<or>
      fs w' (Path w') = Doc (Marshal w') \<and>
      fslog w' = fslog w @ [WriteFile (Path w') (Marshal w') 384]) \<and>
   (Rename cid oldName newName w = (None, w') \<longrightarrow>
      fs w' (Path w') = Doc (Marshal w') \<and>
      fslog w' = fslog w @ [WriteFile (Path w') (Marshal w') 384]) \<and>
   (Delete name w = (None, w') \<longrightarrow>
      fs w' (Path w') = Doc (Marshal w') \<and>
      fslog w' = fslog w @ [WriteFile (Path w') (Marshal w') 384]) \<and>
   (DeleteMatch matchString pattern w = (None, w') \<longrightarrow>
      fs w' (Path w') = Doc (Marshal w') \<and>
      fslog w' = fslog w @ [WriteFile (Path w') (Marshal w') 384]) \<and>
   (Copy cid now srcNameOrId dstName w = (Inr dst, w') \<longrightarrow>
      fs w' (Path w') = Doc (Marshal w') \<and>
      (fslog w' = fslog w @ [WriteFile (Path w') (Marshal w') 384] \<or>
       fslog w' = fslog w @ [WriteFile (Path w') (Marshal w') 384,
                             WriteFile (Path w') (Marshal w') 384]))"
proof -
  have 1: "save_calls w = [WriteFile (Path w) (Marshal w) 384]" by (simp add: save_calls_def)
  note 2 = save_eq [of w]
  have 3: "Index_Add name im w = (None, w') \<longrightarrow>
      w' = snd (load w) \<and> fslog w' = fslog w \<or>
      fs w' (Path w') = Doc (Marshal w') \<and>
      fslog w' = fslog w @ [WriteFile (Path w') (Marshal w') 384]"
    by (rule impI) (rule Index_Add_log)
  have 4: "Rename cid oldName newName w = (None, w') \<longrightarrow>
      fs w' (Path w') = Doc (Marshal w') \<and>
      fslog w' = fslog w @ [WriteFile (Path w') (Marshal w') 384]"
    by (rule impI) (rule Rename_log)
  have 5: "Delete name w = (None, w') \<longrightarrow>
      fs w' (Path w') = Doc (Marshal w') \<and>
      fslog w' = fslog w @ [WriteFile (Path w') (Marshal w') 384]"
    by (rule impI) (rule Delete_log)
  have 6: "DeleteMatch matchString pattern w = (None, w') \<longrightarrow>
      fs w' (Path w') = Doc (Marshal w') \<and>
      fslog w' = fslog w @ [WriteFile (Path w') (Marshal w') 384]"
    by (rule impI) (rule DeleteMatch_log)
  have 7: "Copy cid now srcNameOrId dstName w = (Inr dst, w') \<longrightarrow>
      fs w' (Path w') = Doc (Marshal w') \<and>
      (fslog w' = fslog w @ [WriteFile (Path w') (Marshal w') 384] \<or>
       fslog w' = fslog w @ [WriteFile (Path w') (Marshal w') 384,
                             WriteFile (Path w') (Marshal w') 384])"
    by (rule impI) (rule Copy_log)
  from 1 2 3 4 5 6 7 show ?thesis by (intro conjI)
qed

theorem save_in_place_witness:
  "Delete ''a'' w_mem3 = (None, w_deleted) \<and>
   fs w_deleted (Path w_deleted) = Doc (Marshal w_deleted) \<and>
   fslog w_deleted = fslog w_mem3 @ [WriteFile (Path w_deleted) (Marshal w_deleted) 384] \<and>
   DeleteMatch match_all ''^a'' w_mem3 = (None, snd (DeleteMatch match_all ''^a'' w_mem3)) \<and>
   fslog (snd (DeleteMatch match_all ''^a'' w_mem3))
     = fslog w_mem3 @ [WriteFile (Path (snd (DeleteMatch match_all ''^a'' w_mem3)))
                         (Marshal (snd (DeleteMatch match_all ''^a'' w_mem3))) 384] \<and>
   Copy (\<lambda>s. Inr s) 5 ''a'' ''c'' w_mem3 = (Inr 3, snd (Copy (\<lambda>s. Inr s) 5 ''a'' ''c'' w_mem3)) \<and>
   fs (snd (Copy (\<lambda>s. Inr s) 5 ''a'' ''c'' w_mem3)) (Path (snd (Copy (\<lambda>s. Inr s) 5 ''a'' ''c'' w_mem3)))
     = Doc (Marshal (snd (Copy (\<lambda>s. Inr s) 5 ''a'' ''c'' w_mem3))) \<and>
   length (fslog (snd (Copy (\<lambda>s. Inr s) 5 ''a'' ''c'' w_mem3))) = 2"
proof -
  let ?D = "DeleteMatch match_all ''^a'' w_mem3"
  let ?C = "Copy (\<lambda>s. Inr s) 5 ''a'' ''c'' w_mem3"
  have e: "Delete ''a'' w_mem3 = (None, w_deleted)"
    by (simp add: Delete_def load_def w_mem3_def w_deleted_def save_eq hp3_def Marshal_def
        AList.delete_eq)
  have "fst ?D = None" by code_simp
  then have d: "?D = (None, snd ?D)" by (intro prod_eqI) simp_all
  have "fst ?C = Inr 3" by code_simp
  then have c: "?C = (Inr 3, snd ?C)" by (intro prod_eqI) simp_all
  have n: "length (fslog (snd ?C)) = 2" by code_simp
  note T1 = save_in_place [where w = w_mem3 and name = "''a''" and w' = w_deleted,
      THEN conjunct2, THEN conjunct2, THEN conjunct2, THEN conjunct2, THEN conjunct1, THEN mp, OF e]
  note T2 = save_in_place [where w = w_mem3 and matchString = match_all and pattern = "''^a''"
        and w' = "snd ?D",
      THEN conjunct2, THEN conjunct2, THEN conjunct2, THEN conjunct2, THEN conjunct2,
      THEN conjunct1, THEN mp, OF d]
  note T3 = save_in_place [where w = w_mem3 and cid = "\<lambda>s. Inr s" and now = 5
        and srcNameOrId = "''a''" and dstName = "''c''" and dst = 3 and w' = "snd ?C",
      THEN conjunct2, THEN conjunct2, THEN conjunct2, THEN conjunct2, THEN conjunct2,
      THEN conjunct2, THEN mp, OF c]
  from e T1 [THEN conjunct1] T1 [THEN conjunct2] d T2 [THEN conjunct2] c T3 [THEN conjunct1] n
  show ?thesis by (intro conjI)
qed

subsection \<open>Empty names\<close>

lemma Delete_present:
  assumes "load w = (None, w1)" and "map_of (ByName w1) name = Some h" and "\<not> wfail w"
  shows "\<exists>w'. Delete name w = (None, w') \<and> map_of (ByName w') name = None"
proof -
  define w2 where "w2 = w1\<lparr>ById := foldl (\<lambda>m im. AList.delete (Id (heap w1 ! im)) m) (ById w1) h,
                         ByName := AList.delete name (ByName w1)\<rparr>"
  from load_frame [OF assms(1)] assms(3) have nf: "\<not> wfail w2" by (simp add: w2_def)
  from assms(1,2) have d: "Delete name w = save w2" by (simp add: Delete_def w2_def)
  have b: "map_of (ByName (snd (save w2))) name = None"
    using nf by (simp add: save_eq w2_def delete_conv')
  have f: "fst (save w2) = None" using nf by (simp add: save_eq)
  from d f b show ?thesis by (metis prod.collapse)
qed

lemma Rename_present:
  assumes "load w = (None, w1)" and "map_of (ByName w1) oldName = Some h"
    and "map_of (ByName w1) newName = None"
    and "\<forall>p\<in>set h. \<exists>i. generateImageId cid newName (Layers (heap w1 ! p)) = Inr i"
    and "\<not> wfail w"
  shows "\<exists>w'. Rename cid oldName newName w = (None, w') \<and>
           map_of (ByName w') oldName = None \<and> map_of (ByName w') newName = Some h"
proof -
  define w2 where "w2 = w1\<lparr>ByName := AList.delete oldName (AList.update newName h (ByName w1))\<rparr>"
  from assms(4) have "\<forall>p\<in>set h. \<exists>i. generateImageId cid newName (Layers (heap w2 ! p)) = Inr i"
    by (simp add: w2_def)
  from rename_loop_succeeds [OF this] obtain w3 where l: "rename_loop cid newName h w2 = (None, w3)"
    by blast
  note fr = rename_loop_frame [OF l]
  from fr load_frame [OF assms(1)] assms(5) have nf: "\<not> wfail w3" by (simp add: w2_def)
  have on: "oldName \<noteq> newName" using assms(2,3) by auto
  from assms(1,2,3) l have r: "Rename cid oldName newName w = save w3"
    by (simp add: Rename_def w2_def)
  have f: "fst (save w3) = None" using nf by (simp add: save_eq)
  have bn: "ByName (snd (save w3)) = AList.delete oldName (AList.update newName h (ByName w1))"
    using nf fr by (simp add: save_eq w2_def)
  have 1: "map_of (ByName (snd (save w3))) oldName = None" by (simp add: bn delete_conv')
  have 2: "map_of (ByName (snd (save w3))) newName = Some h"
    using on by (simp add: bn delete_conv' update_conv')
  from r f 1 2 show ?thesis by (metis prod.collapse)
qed

lemma Index_Add_new_name:
  assumes "load w = (None, w1)" and "map_of (ByName w1) name = None" and "\<not> wfail w"
  shows "\<exists>w'. Index_Add name im w = (None, w') \<and> map_of (ByName w') name = Some [im] \<and>
           map_of (ById w') (Id (heap w' ! im)) = Some im"
proof -
  define w2 where "w2 = w1\<lparr>ByName := AList.update name (History_Add (heap w1) im []) (ByName w1),
                         ById := AList.update (Id (heap w1 ! im)) im (ById w1)\<rparr>"
  from load_frame [OF assms(1)] assms(3) have nf: "\<not> wfail w2" by (simp add: w2_def)
  from assms(1,2) have a: "Index_Add name im w = save w2" by (simp add: Index_Add_def w2_def)
  have h: "History_Add (heap w1) im [] = [im]" by (simp add: History_Add_def sort_Sort_def)
  have f: "fst (save w2) = None" using nf by (simp add: save_eq)
  have 1: "map_of (ByName (snd (save w2))) name = Some [im]"
    using nf by (simp add: save_eq w2_def update_conv' h)
  have 2: "map_of (ById (snd (save w2))) (Id (heap (snd (save w2)) ! im)) = Some im"
    using nf by (simp add: save_eq w2_def update_conv')
  from a f 1 2 show ?thesis by (metis prod.collapse)
qed

lemma Index_Add_existing_name:
  assumes "load w = (None, w1)" and "map_of (ByName w1) name = Some (latest # rest)"
    and "\<not> wfail w"
  shows "\<exists>w' h'. Index_Add name im w = (None, w') \<and> map_of (ByName w') name = Some h' \<and>
           h' \<noteq> [] \<and> (Id (heap w1 ! latest) \<noteq> Id (heap w1 ! im) \<longrightarrow> im \<in> set h')"
proof (cases "Id (heap w1 ! latest) = Id (heap w1 ! im)")
  case True
  with assms(1,2) have "Index_Add name im w = (None, w1)" by (simp add: Index_Add_def)
  with assms(2) True show ?thesis by auto
next
  case False
  define w2 where "w2 = w1\<lparr>ByName := AList.update name (History_Add (heap w1) im (latest # rest)) (ByName w1),
                         ById := AList.update (Id (heap w1 ! im)) im (ById w1)\<rparr>"
  from load_frame [OF assms(1)] assms(3) have nf: "\<not> wfail w2" by (simp add: w2_def)
  from assms(1,2) False have a: "Index_Add name im w = save w2"
    by (simp add: Index_Add_def w2_def)
  have f: "fst (save w2) = None" using nf by (simp add: save_eq)
  have 1: "map_of (ByName (snd (save w2))) name = Some (History_Add (heap w1) im (latest # rest))"
    using nf by (simp add: save_eq w2_def update_conv')
  have "im \<in># mset (History_Add (heap w1) im (latest # rest))"
    using History_Add_props [of "heap w1" im "latest # rest"] by simp
  then have 3: "im \<in> set (History_Add (heap w1) im (latest # rest))" by simp
  then have 2: "History_Add (heap w1) im (latest # rest) \<noteq> []" by auto
  from a f 1 2 3 show ?thesis by (metis prod.collapse)
qed

text \<open>
  C6, as the claim states it, fails: \<^verbatim>\<open>Index.Add\<close> with the empty name succeeds and files
  the image under the empty name.
\<close>

theorem Index_Add_empty_name_counterexample:
  "fst (Index_Add [] 0 w_heap3) = None \<and>
   map_of (ByName (snd (Index_Add [] 0 w_heap3))) [] = Some [0] \<and>
   ByName w_heap3 = []"
  by (simp add: Index_Add_def load_def save_def save_calls_def w_heap3_def NewIndex_def
      History_Add_def sort_Sort_def hp3_def)

text \<open>
  C6, amended. \<^verbatim>\<open>Copy\<close> with an empty source or an empty destination fails with the error
  "Illegal image name" and changes nothing, in memory or on disk. The other operations make
  no check of their own: once the load has succeeded, the empty string is a key like any
  other. \<^verbatim>\<open>Find\<close> of the empty string returns the image filed under it as an id, else the
  latest image filed under it as a name, else no image. With nothing under the empty name,
  \<^verbatim>\<open>Delete\<close> and \<^verbatim>\<open>Rename\<close> of it fail with their "no such image" errors; with a history
  under it, and when the write succeeds, \<^verbatim>\<open>Delete\<close> removes the name and \<^verbatim>\<open>Rename\<close> moves
  the history to a free name. \<^verbatim>\<open>Rename\<close> moves a history to the empty name when that is
  free, and \<^verbatim>\<open>Add\<close> files an image under the empty name, be the name new or not (unless
  the image is the latest version there already).
\<close>

theorem empty_names:
  "(srcNameOrId = [] \<or> dstName = [] \<longrightarrow>
      Copy cid now srcNameOrId dstName w = (Inl (ErrMsg ''Illegal image name''), w)) \<and>
   (load w = (None, w1) \<longrightarrow>
      Find [] w =
        (case map_of (ById w1) [] of
           Some p \<Rightarrow> (Some p, w1)
         | None \<Rightarrow> (case map_of (ByName w1) [] of
                      Some (p # rest) \<Rightarrow> (Some p, w1)
                    | Some [] \<Rightarrow> (None, w1)
                    | None \<Rightarrow> (None, w1))) \<and>
      (map_of (ByName w1) [] = None \<longrightarrow>
         Delete [] w = (Some (ErrMsg ''No such image: ''), w1) \<and>
         Rename cid [] newName w = (Some (ErrMsg ''Can't rename : no such image.''), w1)) \<and>
      (\<forall>h. map_of (ByName w1) [] = Some h \<and> \<not> wfail w \<longrightarrow>
         (\<exists>w'. Delete [] w = (None, w') \<and> map_of (ByName w') [] = None)) \<and>
      (\<forall>h. map_of (ByName w1) [] = Some h \<and> map_of (ByName w1) newName = None \<and>
           (\<forall>p\<in>set h. \<exists>i. generateImageId cid newName (Layers (heap w1 ! p)) = Inr i) \<and>
           \<not> wfail w \<longrightarrow>
         (\<exists>w'. Rename cid [] newName w = (None, w') \<and>
               map_of (ByName w') [] = None \<and> map_of (ByName w') newName = Some h)) \<and>
      (\<forall>h. map_of (ByName w1) oldName = Some h \<and> map_of (ByName w1) [] = None \<and>
           (\<forall>p\<in>set h. \<exists>i. generateImageId cid [] (Layers (heap w1 ! p)) = Inr i) \<and>
           \<not> wfail w \<longrightarrow>
         (\<exists>w'. Rename cid oldName [] w = (None, w') \<and>
               map_of (ByName w') oldName = None \<and> map_of (ByName w') [] = Some h)) \<and>
      (map_of (ByName w1) [] = None \<and> \<not> wfail w \<longrightarrow>
         (\<exists>w'. Index_Add [] im w = (None, w') \<and> map_of (ByName w') [] = Some [im] \<and>
               map_of (ById w') (Id (heap w' ! im)) = Some im)) \<and>
      (\<forall>latest rest. map_of (ByName w1) [] = Some (latest # rest) \<and> \<not> wfail w \<longrightarrow>
         (\<exists>w' h'. Index_Add [] im w = (None, w') \<and> map_of (ByName w') [] = Some h' \<and>
                  h' \<noteq> [] \<and> (Id (heap w1 ! latest) \<noteq> Id (heap w1 ! im) \<longrightarrow> im \<in> set h'))))"
proof (rule conjI)
  show "srcNameOrId = [] \<or> dstName = [] \<longrightarrow>
      Copy cid now srcNameOrId dstName w = (Inl (ErrMsg ''Illegal image name''), w)"
    by (auto simp: Copy_def)
next
  show "load w = (None, w1) \<longrightarrow>
      Find [] w =
        (case map_of (ById w1) [] of
           Some p \<Rightarrow> (Some p, w1)
         | None \<Rightarrow> (case map_of (ByName w1) [] of
                      Some (p # rest) \<Rightarrow> (Some p, w1)
                    | Some [] \<Rightarrow> (None, w1)
                    | None \<Rightarrow> (None, w1))) \<and>
      (map_of (ByName w1) [] = None \<longrightarrow>
         Delete [] w = (Some (ErrMsg ''No such image: ''), w1) \<and>
         Rename cid [] newName w = (Some (ErrMsg ''Can't rename : no such image.''), w1)) \<and>
      (\<forall>h. map_of (ByName w1) [] = Some h \<and> \<not> wfail w \<longrightarrow>
         (\<exists>w'. Delete [] w = (None, w') \<and> map_of (ByName w') [] = None)) \<and>
      (\<forall>h. map_of (ByName w1) [] = Some h \<and> map_of (ByName w1) newName = None \<and>
           (\<forall>p\<in>set h. \<exists>i. generateImageId cid newName (Layers (heap w1 ! p)) = Inr i) \<and>
           \<not> wfail w \<longrightarrow>
         (\<exists>w'. Rename cid [] newName w = (None, w') \<and>
               map_of (ByName w') [] = None \<and> map_of (ByName w') newName = Some h)) \<and>
      (\<forall>h. map_of (ByName w1) oldName = Some h \<and> map_of (ByName w1) [] = None \<and>
           (\<forall>p\<in>set h. \<exists>i. generateImageId cid [] (Layers (heap w1 ! p)) = Inr i) \<and>
           \<not> wfail w \<longrightarrow>
         (\<exists>w'. Rename cid oldName [] w = (None, w') \<and>
               map_of (ByName w') oldName = None \<and> map_of (ByName w') [] = Some h)) \<and>
      (map_of (ByName w1) [] = None \<and> \<not> wfail w \<longrightarrow>
         (\<exists>w'. Index_Add [] im w = (None, w') \<and> map_of (ByName w') [] = Some [im] \<and>
               map_of (ById w') (Id (heap w' ! im)) = Some im)) \<and>
      (\<forall>latest rest. map_of (ByName w1) [] = Some (latest # rest) \<and> \<not> wfail w \<longrightarrow>
         (\<exists>w' h'. Index_Add [] im w = (None, w') \<and> map_of (ByName w') [] = Some h' \<and>
                  h' \<noteq> [] \<and> (Id (heap w1 ! latest) \<noteq> Id (heap w1 ! im) \<longrightarrow> im \<in> set h')))"
  proof
    assume l: "load w = (None, w1)"
    have 1: "Find [] w =
        (case map_of (ById w1) [] of
           Some p \<Rightarrow> (Some p, w1)
         | None \<Rightarrow> (case map_of (ByName w1) [] of
                      Some (p # rest) \<Rightarrow> (Some p, w1)
                    | Some [] \<Rightarrow> (None, w1)
                    | None \<Rightarrow> (None, w1)))"
      using l by (simp add: Find_def split: option.splits list.splits)
    have 2: "map_of (ByName w1) [] = None \<longrightarrow>
         Delete [] w = (Some (ErrMsg ''No such image: ''), w1) \<and>
         Rename cid [] newName w = (Some (ErrMsg ''Can't rename : no such image.''), w1)"
      using l by (simp add: Delete_def Rename_def)
    have 3: "\<forall>h. map_of (ByName w1) [] = Some h \<and> \<not> wfail w \<longrightarrow>
         (\<exists>w'. Delete [] w = (None, w') \<and> map_of (ByName w') [] = None)"
      using Delete_present [OF l] by blast
    have 4: "\<forall>h. map_of (ByName w1) [] = Some h \<and> map_of (ByName w1) newName = None \<and>
           (\<forall>p\<in>set h. \<exists>i. generateImageId cid newName (Layers (heap w1 ! p)) = Inr i) \<and>
           \<not> wfail w \<longrightarrow>
         (\<exists>w'. Rename cid [] newName w = (None, w') \<and>
               map_of (ByName w') [] = None \<and> map_of (ByName w') newName = Some h)"
      using Rename_present [OF l, of "[]" _ newName cid] by blast
    have 5: "\<forall>h. map_of (ByName w1) oldName = Some h \<and> map_of (ByName w1) [] = None \<and>
           (\<forall>p\<in>set h. \<exists>i. generateImageId cid [] (Layers (heap w1 ! p)) = Inr i) \<and>
           \<not> wfail w \<longrightarrow>
         (\<exists>w'. Rename cid oldName [] w = (None, w') \<and>
               map_of (ByName w') oldName = None \<and> map_of (ByName w') [] = Some h)"
      using Rename_present [OF l, of oldName _ "[]" cid] by blast
    have 6: "map_of (ByName w1) [] = None \<and> \<not> wfail w \<longrightarrow>
         (\<exists>w'. Index_Add [] im w = (None, w') \<and> map_of (ByName w') [] = Some [im] \<and>
               map_of (ById w') (Id (heap w' ! im)) = Some im)"
      using Index_Add_new_name [OF l, of "[]" im] by blast
    have 7: "\<forall>latest rest. map_of (ByName w1) [] = Some (latest # rest) \<and> \<not> wfail w \<longrightarrow>
         (\<exists>w' h'. Index_Add [] im w = (None, w') \<and> map_of (ByName w') [] = Some h' \<and>
                  h' \<noteq> [] \<and> (Id (heap w1 ! latest) \<noteq> Id (heap w1 ! im) \<longrightarrow> im \<in> set h'))"
      using Index_Add_existing_name [OF l, of "[]" _ _ im] by blast
    from 1 2 3 4 5 6 7
    show "Find [] w =
        (case map_of (ById w1) [] of
           Some p \<Rightarrow> (Some p, w1)
         | None \<Rightarrow> (case map_of (ByName w1) [] of
                      Some (p # rest) \<Rightarrow> (Some p, w1)
                    | Some [] \<Rightarrow> (None, w1)
                    | None \<Rightarrow> (None, w1))) \<and>
      (map_of (ByName w1) [] = None \<longrightarrow>
         Delete [] w = (Some (ErrMsg ''No such image: ''), w1) \<and>
         Rename cid [] newName w = (Some (ErrMsg ''Can't rename : no such image.''), w1)) \<and>
      (\<forall>h. map_of (ByName w1) [] = Some h \<and> \<not> wfail w \<longrightarrow>
         (\<exists>w'. Delete [] w = (None, w') \<and> map_of (ByName w') [] = None)) \<and>
      (\<forall>h. map_of (ByName w1) [] = Some h \<and> map_of (ByName w1) newName = None \<and>
           (\<forall>p\<in>set h. \<exists>i. generateImageId cid newName (Layers (heap w1 ! p)) = Inr i) \<and>
           \<not> wfail w \<longrightarrow>
         (\<exists>w'. Rename cid [] newName w = (None, w') \<and>
               map_of (ByName w') [] = None \<and> map_of (ByName w') newName = Some h)) \<and>
      (\<forall>h. map_of (ByName w1) oldName = Some h \<and> map_of (ByName w1) [] = None \<and>
           (\<forall>p\<in>set h. \<exists>i. generateImageId cid [] (Layers (heap w1 ! p)) = Inr i) \<and>
           \<not> wfail w \<longrightarrow>
         (\<exists>w'. Rename cid oldName [] w = (None, w') \<and>
               map_of (ByName w') oldName = None \<and> map_of (ByName w') [] = Some h)) \<and>
      (map_of (ByName w1) [] = None \<and> \<not> wfail w \<longrightarrow>
         (\<exists>w'. Index_Add [] im w = (None, w') \<and> map_of (ByName w') [] = Some [im] \<and>
               map_of (ById w') (Id (heap w' ! im)) = Some im)) \<and>
      (\<forall>latest rest. map_of (ByName w1) [] = Some (latest # rest) \<and> \<not> wfail w \<longrightarrow>
         (\<exists>w' h'. Index_Add [] im w = (None, w') \<and> map_of (ByName w') [] = Some h' \<and>
                  h' \<noteq> [] \<and> (Id (heap w1 ! latest) \<noteq> Id (heap w1 ! im) \<longrightarrow> im \<in> set h')))"
      by (intro conjI)
  qed
qed

theorem empty_names_witness:
  "Copy (\<lambda>s. Inr s) 5 [] ''b'' w_stale = (Inl (ErrMsg ''Illegal image name''), w_stale) \<and>
   Copy (\<lambda>s. Inr s) 5 ''a'' [] w_stale = (Inl (ErrMsg ''Illegal image name''), w_stale) \<and>
   load w_anon = (None, w_anon) \<and> map_of (ByName w_anon) [] = Some [0] \<and> \<not> wfail w_anon \<and>
   Find [] w_anon = (Some 0, w_anon) \<and>
   (\<exists>w'. Delete [] w_anon = (None, w') \<and> map_of (ByName w') [] = None) \<and>
   (\<exists>w'. Rename (\<lambda>s. Inr s) [] ''b'' w_anon = (None, w') \<and>
         map_of (ByName w') [] = None \<and> map_of (ByName w') ''b'' = Some [0]) \<and>
   (\<exists>w' h'. Index_Add [] 0 w_anon = (None, w') \<and> map_of (ByName w') [] = Some h' \<and> h' \<noteq> []) \<and>
   load w_mem3 = (None, w_mem3) \<and> map_of (ByName w_mem3) ''a'' = Some [1, 2, 0] \<and>
   map_of (ByName w_mem3) [] = None \<and> \<not> wfail w_mem3 \<and>
   (\<exists>w'. Rename (\<lambda>s. Inr s) ''a'' [] w_mem3 = (None, w') \<and>
         map_of (ByName w') ''a'' = None \<and> map_of (ByName w') [] = Some [1, 2, 0]) \<and>
   (\<exists>w'. Index_Add [] 1 w_mem3 = (None, w') \<and> map_of (ByName w') [] = Some [1] \<and>
         map_of (ById w') (Id (heap w' ! 1)) = Some 1) \<and>
   Delete [] w_mem3 = (Some (ErrMsg ''No such image: ''), w_mem3)"
proof -
  have la: "load w_anon = (None, w_anon)" by (simp add: load_def w_anon_def)
  have ma: "map_of (ByName w_anon) [] = Some [0]" by (simp add: w_anon_def)
  have ia: "map_of (ById w_anon) [] = None" by (simp add: w_anon_def)
  have fa: "\<not> wfail w_anon" by (simp add: w_anon_def)
  have ba: "map_of (ByName w_anon) ''b'' = None" by (simp add: w_anon_def)
  have ga: "\<forall>p\<in>set [0]. \<exists>i. generateImageId (\<lambda>s. Inr s) ''b'' (Layers (heap w_anon ! p)) = Inr i"
    by (simp add: w_anon_def generateImageId_def)
  have lm: "load w_mem3 = (None, w_mem3)" by (simp add: load_def w_mem3_def)
  have mm: "map_of (ByName w_mem3) ''a'' = Some [1, 2, 0]" by (simp add: w_mem3_def)
  have em: "map_of (ByName w_mem3) [] = None" by (simp add: w_mem3_def)
  have fm: "\<not> wfail w_mem3" by (simp add: w_mem3_def)
  have gm: "\<forall>p\<in>set [1, 2, 0]. \<exists>i. generateImageId (\<lambda>s. Inr s) [] (Layers (heap w_mem3 ! p)) = Inr i"
    by (simp add: w_mem3_def hp3_def generateImageId_def)
  note C1 = empty_names [where srcNameOrId = "[]" and dstName = "''b''" and cid = "\<lambda>s. Inr s"
      and now = 5 and w = w_stale, THEN conjunct1, THEN mp, OF disjI1, OF refl]
  note C2 = empty_names [where srcNameOrId = "''a''" and dstName = "[]" and cid = "\<lambda>s. Inr s"
      and now = 5 and w = w_stale, THEN conjunct1, THEN mp, OF disjI2, OF refl]
  note A = empty_names [where w = w_anon and ?w1.0 = w_anon and cid = "\<lambda>s. Inr s"
      and newName = "''b''" and im = 0, THEN conjunct2, THEN mp, OF la]
  note M = empty_names [where w = w_mem3 and ?w1.0 = w_mem3 and cid = "\<lambda>s. Inr s"
      and oldName = "''a''" and im = 1, THEN conjunct2, THEN mp, OF lm]
  have a1: "Find [] w_anon = (Some 0, w_anon)"
    using A [THEN conjunct1] by (simp add: ma ia)
  note a3 = A [THEN conjunct2, THEN conjunct2, THEN conjunct1, THEN spec, THEN mp,
      OF conjI, OF ma fa]
  note a4 = A [THEN conjunct2, THEN conjunct2, THEN conjunct2, THEN conjunct1, THEN spec,
      THEN mp, OF conjI, OF ma conjI, OF ba conjI, OF ga fa]
  note a7 = A [THEN conjunct2, THEN conjunct2, THEN conjunct2, THEN conjunct2, THEN conjunct2,
      THEN conjunct2, THEN spec, THEN spec, THEN mp, OF conjI, OF ma fa]
  note m2 = M [THEN conjunct2, THEN conjunct1, THEN mp, OF em, THEN conjunct1]
  note m5 = M [THEN conjunct2, THEN conjunct2, THEN conjunct2, THEN conjunct2, THEN conjunct1,
      THEN spec, THEN mp, OF conjI, OF mm conjI, OF em conjI, OF gm fm]
  note m6 = M [THEN conjunct2, THEN conjunct2, THEN conjunct2, THEN conjunct2, THEN conjunct2,
      THEN conjunct1, THEN mp, OF conjI, OF em fm]
  have a7': "\<exists>w' h'. Index_Add [] 0 w_anon = (None, w') \<and> map_of (ByName w') [] = Some h' \<and>
      h' \<noteq> []"
    using a7 by (elim exE conjE) (intro exI conjI)
  from C1 C2 la ma fa a1 a3 a4 a7' lm mm em fm m5 m6 m2 show ?thesis by (intro conjI)
qed

end
